theory Spec2Isabelle
  imports Main "HOL-Library.Word" "HOL-Library.Sublist"
begin

section \<open>The command-line tool of fba (backend/cli.py)\<close>

text \<open>
  The functions of \<^verbatim>\<open>backend/cli.py\<close> are embedded as state transformers over a
  world: the process-wide settings, the database server, the cache, the file system, the
  lines typed at the terminal, the operating system's entropy and the trace of every
  effect the program has had so far.  A Python exception is the \<open>Inl\<close> of the result;
  the world survives it, as it does in the program.
\<close>

subsection \<open>Exceptions\<close>

text \<open>
  \<^verbatim>\<open>cappa.Exit(message, code=...)\<close> carries the message and the exit status of the
  process.  \<^verbatim>\<open>BaseExceptionError\<close> (backend.common.exception.errors) has a
  \<^verbatim>\<open>msg\<close> attribute, which \<^verbatim>\<open>install_plugin\<close> reads; its second field here is what
  \<^verbatim>\<open>str(e)\<close> gives.  Any other exception is \<open>PyError\<close> with the text of \<^verbatim>\<open>str(e)\<close>.
  \<^verbatim>\<open>cappa.Exit\<close> is a \<^verbatim>\<open>SystemExit\<close>, which \<^verbatim>\<open>except Exception\<close> does not catch; the
  other two are caught by it.
\<close>

datatype exn =
    Exit string int
  | BaseExceptionError string string
  | PyError string

fun str_exn :: "exn \<Rightarrow> string" where
  "str_exn (Exit message code) = message"
| "str_exn (BaseExceptionError msg s) = s"
| "str_exn (PyError s) = s"

fun is_Exception :: "exn \<Rightarrow> bool" where
  "is_Exception (Exit message code) = False"
| "is_Exception (BaseExceptionError msg s) = True"
| "is_Exception (PyError s) = True"

text \<open>
  The \<^verbatim>\<open>EOFError\<close> of \<^verbatim>\<open>input()\<close> at the end of the input, and that of
  \<^verbatim>\<open>getpass.getpass\<close>, which is raised without a text.
\<close>

definition EOFError :: exn where
  "EOFError = PyError ''EOF when reading a line''"

definition EOFError_getpass :: exn where
  "EOFError_getpass = PyError []"

subsection \<open>Enumerations, settings and connection URLs\<close>

text \<open>
  Modelled from the spec: \<^verbatim>\<open>DataBaseType\<close> and \<^verbatim>\<open>PrimaryKeyType\<close> of
  backend.common.enums, which is not among the sources: two SQL dialects and two
  primary-key modes, each a string-valued enumeration that the code compares with the
  string held in the settings.
\<close>

datatype DataBaseType = mysql | postgresql

datatype PrimaryKeyType = autoincrement | snowflake

fun DataBaseType_value :: "DataBaseType \<Rightarrow> string" where
  "DataBaseType_value mysql = ''mysql''"
| "DataBaseType_value postgresql = ''postgresql''"

fun PrimaryKeyType_value :: "PrimaryKeyType \<Rightarrow> string" where
  "PrimaryKeyType_value autoincrement = ''autoincrement''"
| "PrimaryKeyType_value snowflake = ''snowflake''"

text \<open>The fields of \<^verbatim>\<open>settings\<close> (backend.core.conf) that cli.py reads or assigns.\<close>

record settings =
  DATABASE_TYPE :: string
  DATABASE_HOST :: string
  DATABASE_PORT :: string
  DATABASE_USER :: string
  DATABASE_PASSWORD :: string
  DATABASE_SCHEMA :: string
  DATABASE_CHARSET :: string
  DATABASE_PK_MODE :: string
  REDIS_HOST :: string
  REDIS_PORT :: string
  REDIS_PASSWORD :: string
  REDIS_DATABASE :: string
  TOKEN_SECRET_KEY :: string
  OPERA_LOG_ENCRYPT_SECRET_KEY :: string
  JWT_USER_REDIS_PREFIX :: string
  TOKEN_EXTRA_INFO_REDIS_PREFIX :: string
  TOKEN_REDIS_PREFIX :: string
  TOKEN_REFRESH_REDIS_PREFIX :: string

record URL =
  drivername :: string
  username :: string
  password :: string
  host :: string
  port :: string
  database :: "string option"

subsection \<open>The trace of effects\<close>

text \<open>
  One constructor per \<^verbatim>\<open>console.print\<close> of cli.py, in the order of the source, with
  the values its f-string interpolates.
\<close>

datatype console_msg =
    Msg_env_example_missing
  | Msg_configure_database
  | Msg_configure_redis
  | Msg_generate_secrets
  | Msg_write_env
  | Msg_env_created
  | Msg_env_create_failed string
  | Msg_rebuild_database string
  | Msg_database_created
  | Msg_database_create_failed string
  | Msg_step1
  | Panel_env
  | Msg_step2
  | Panel_database string string string string
  | Msg_database_cancelled
  | Msg_step3
  | Panel_init string string string string string string "string list"
  | Msg_init_start
  | Msg_clean_redis
  | Msg_rebuild_tables
  | Msg_run_sql_scripts
  | Msg_executing string
  | Msg_init_success
  | Msg_try_fba_run
  | Msg_init_cancelled
  | Msg_install_start
  | Msg_plugin_installed string
  | Msg_plugin_sql_start
  | Msg_sql_done

text \<open>One constructor per \<^verbatim>\<open>Prompt.ask\<close> of cli.py.\<close>

datatype prompt =
    Ask_db_type
  | Ask_db_host
  | Ask_db_port
  | Ask_db_user
  | Ask_db_password
  | Ask_redis_host
  | Ask_redis_port
  | Ask_redis_password
  | Ask_redis_db
  | Ask_confirm_database
  | Ask_confirm_init

text \<open>The calls that leave the process, and how each one ended.\<close>

datatype action =
    PathExists string
  | ReadText string
  | WriteText string string
  | CreateEngine URL
  | Connect
  | ConnExecute string
  | Dispose
  | DeletePrefix string
  | DropTables
  | CreateTables
  | GetPlugins
  | GetPluginSql string string string
  | ParseSqlScript string
  | Begin
  | Execute string
  | Commit
  | Rollback
  | InstallZip string
  | InstallGit string

datatype outcome = Returned | Rows nat | Raised exn

datatype event =
    Print console_msg
  | Ask prompt
  | Answer prompt string
  | Call action outcome

subsection \<open>The world\<close>

record ('db, 'r, 'fs) world =
  settings :: settings
  db :: 'db
  cache :: 'r
  fs :: 'fs
  stdin :: "string list"
  entropy :: "nat \<Rightarrow> 8 word"
  trace :: "event list"

type_synonym ('db, 'r, 'fs, 'a) prog =
  "('db, 'r, 'fs) world \<Rightarrow> (exn + 'a) \<times> ('db, 'r, 'fs) world"

definition ret :: "'a \<Rightarrow> ('db, 'r, 'fs, 'a) prog" where
  "ret a w = (Inr a, w)"

definition raise :: "exn \<Rightarrow> ('db, 'r, 'fs, 'a) prog" where
  "raise e w = (Inl e, w)"

definition bind :: "('db, 'r, 'fs, 'a) prog \<Rightarrow> ('a \<Rightarrow> ('db, 'r, 'fs, 'b) prog) \<Rightarrow> ('db, 'r, 'fs, 'b) prog" where
  "bind m f w = (case m w of (Inl e, w') \<Rightarrow> (Inl e, w') | (Inr a, w') \<Rightarrow> f a w')"

definition seq :: "('db, 'r, 'fs, 'a) prog \<Rightarrow> ('db, 'r, 'fs, 'b) prog \<Rightarrow> ('db, 'r, 'fs, 'b) prog" where
  "seq m n = bind m (\<lambda>_. n)"

text \<open>
  \<^verbatim>\<open>try: m except Exception as e: h(e)\<close>: an exception that is no \<^verbatim>\<open>Exception\<close> is not
  caught.
\<close>

definition try_except :: "('db, 'r, 'fs, 'a) prog \<Rightarrow> (exn \<Rightarrow> ('db, 'r, 'fs, 'a) prog) \<Rightarrow> ('db, 'r, 'fs, 'a) prog" where
  "try_except m h w =
     (case m w of
        (Inl e, w') \<Rightarrow> if is_Exception e then h e w' else (Inl e, w')
      | (Inr a, w') \<Rightarrow> (Inr a, w'))"

text \<open>\<^verbatim>\<open>try: m finally: fin\<close>: \<open>fin\<close> runs either way; an exception of \<open>m\<close> is raised again after it.\<close>

definition try_finally :: "('db, 'r, 'fs, 'a) prog \<Rightarrow> ('db, 'r, 'fs, unit) prog \<Rightarrow> ('db, 'r, 'fs, 'a) prog" where
  "try_finally m fin w =
     (case m w of (r, w1) \<Rightarrow>
        (case fin w1 of (Inl e, w2) \<Rightarrow> (Inl e, w2) | (Inr u, w2) \<Rightarrow> (r, w2)))"

text \<open>\<^verbatim>\<open>for x in xs: f(x)\<close>: the first exception ends the loop.\<close>

fun for_each :: "'a list \<Rightarrow> ('a \<Rightarrow> ('db, 'r, 'fs, unit) prog) \<Rightarrow> ('db, 'r, 'fs, unit) prog" where
  "for_each [] f w = (Inr (), w)"
| "for_each (x # xs) f w =
     (case f x w of (Inl e, w') \<Rightarrow> (Inl e, w') | (Inr u, w') \<Rightarrow> for_each xs f w')"

definition log :: "event \<Rightarrow> ('db, 'r, 'fs) world \<Rightarrow> ('db, 'r, 'fs) world" where
  "log e w = w\<lparr>trace := trace w @ [e]\<rparr>"

definition console_print :: "console_msg \<Rightarrow> ('db, 'r, 'fs, unit) prog" where
  "console_print m w = (Inr (), log (Print m) w)"

fun outcome_of :: "exn + 'a \<Rightarrow> outcome" where
  "outcome_of (Inl e) = Raised e"
| "outcome_of (Inr a) = Returned"

subsection \<open>The collaborators\<close>

text \<open>
  What cli.py imports from the rest of the repository and from its libraries is a
  parameter of the model: each function below may raise, and those that write may change
  the part of the world they act on.  \<open>'fs\<close> is the file system, \<open>'r\<close> the cache
  server, \<open>'db\<close> the database server.
\<close>

record ('db, 'r, 'fs) env =
  BASE_PATH :: string
  path_exists :: "string \<Rightarrow> 'fs \<Rightarrow> bool"
  read_text :: "string \<Rightarrow> 'fs \<Rightarrow> exn + string"
  write_text :: "string \<Rightarrow> string \<Rightarrow> 'fs \<Rightarrow> (exn + unit) \<times> 'fs"
  get_plugins :: "'fs \<Rightarrow> exn + string list"
  get_plugin_sql :: "string \<Rightarrow> string \<Rightarrow> string \<Rightarrow> 'fs \<Rightarrow> exn + string option"
  parse_sql_script :: "string \<Rightarrow> 'fs \<Rightarrow> exn + string list"
  install_zip_plugin :: "string \<Rightarrow> 'fs \<Rightarrow> (exn + string) \<times> 'fs"
  install_git_plugin :: "string \<Rightarrow> 'fs \<Rightarrow> (exn + string) \<times> 'fs"
  delete_prefix :: "string \<Rightarrow> 'r \<Rightarrow> (exn + unit) \<times> 'r"
  drop_tables :: "'db \<Rightarrow> (exn + unit) \<times> 'db"
  create_tables :: "'db \<Rightarrow> (exn + unit) \<times> 'db"
  session_execute :: "string \<Rightarrow> 'db \<Rightarrow> (exn + unit) \<times> 'db"
  create_async_engine :: "URL \<Rightarrow> exn option"
  engine_connect :: "URL \<Rightarrow> 'db \<Rightarrow> (exn + unit) \<times> 'db"
  conn_execute :: "URL \<Rightarrow> string \<Rightarrow> 'db \<Rightarrow> (exn + nat) \<times> 'db"

text \<open>A call that reads the file system.\<close>

definition fs_read :: "action \<Rightarrow> ('fs \<Rightarrow> exn + 'a) \<Rightarrow> ('db, 'r, 'fs, 'a) prog" where
  "fs_read a f w = (let r = f (fs w) in (r, log (Call a (outcome_of r)) w))"

text \<open>A call that may change the file system, the cache or the database server.\<close>

definition fs_call :: "action \<Rightarrow> ('fs \<Rightarrow> (exn + 'a) \<times> 'fs) \<Rightarrow> ('db, 'r, 'fs, 'a) prog" where
  "fs_call a f w = (case f (fs w) of (r, s) \<Rightarrow> (r, log (Call a (outcome_of r)) (w\<lparr>fs := s\<rparr>)))"

definition cache_call :: "action \<Rightarrow> ('r \<Rightarrow> (exn + 'a) \<times> 'r) \<Rightarrow> ('db, 'r, 'fs, 'a) prog" where
  "cache_call a f w = (case f (cache w) of (r, s) \<Rightarrow> (r, log (Call a (outcome_of r)) (w\<lparr>cache := s\<rparr>)))"

definition db_call :: "action \<Rightarrow> ('db \<Rightarrow> (exn + 'a) \<times> 'db) \<Rightarrow> ('db, 'r, 'fs, 'a) prog" where
  "db_call a f w = (case f (db w) of (r, s) \<Rightarrow> (r, log (Call a (outcome_of r)) (w\<lparr>db := s\<rparr>)))"

text \<open>
  Modelled from the spec: the transaction scope \<^verbatim>\<open>async with async_db_session.begin()\<close>
  of backend.database.db, which is not among the sources ("inside a single database
  transaction scoped to the whole script: all statements commit together or none do").
  The body's writes become permanent when it returns and are undone when it raises; the
  exception is then raised again.
\<close>

definition session_begin :: "('db, 'r, 'fs, 'a) prog \<Rightarrow> ('db, 'r, 'fs, 'a) prog" where
  "session_begin body w =
     (let snapshot = db w in
      case body (log (Call Begin Returned) w) of
        (Inl e, w') \<Rightarrow> (Inl e, log (Call Rollback Returned) (w'\<lparr>db := snapshot\<rparr>))
      | (Inr a, w') \<Rightarrow> (Inr a, log (Call Commit Returned) w'))"

subsection \<open>Messages of \<^verbatim>\<open>cappa.Exit\<close>\<close>

text \<open>
  The literals are Chinese; they are given as their UTF-8 bytes.  \<open>msg_sql_failed\<close> is
  the literal of line 367 ("SQL script execution failed:"), \<open>msg_init_failed\<close> that of
  line 253 ("initialization failed:"), \<open>msg_env_failed\<close> that of line 175,
  \<open>msg_db_create_failed\<close> that of line 192, \<open>msg_path_or_repo_required\<close> that of line
  310 and \<open>msg_path_and_repo_exclusive\<close> that of line 312.
\<close>

definition msg_sql_failed :: string where
  "msg_sql_failed = ''SQL '' @ [CHR 0xE8, CHR 0x84, CHR 0x9A] @ [CHR 0xE6, CHR 0x9C, CHR 0xAC]
     @ [CHR 0xE6, CHR 0x89, CHR 0xA7] @ [CHR 0xE8, CHR 0xA1, CHR 0x8C] @ [CHR 0xE5, CHR 0xA4, CHR 0xB1]
     @ [CHR 0xE8, CHR 0xB4, CHR 0xA5] @ [CHR 0xEF, CHR 0xBC, CHR 0x9A]"

definition msg_init_failed :: string where
  "msg_init_failed = [CHR 0xE5, CHR 0x88, CHR 0x9D] @ [CHR 0xE5, CHR 0xA7, CHR 0x8B]
     @ [CHR 0xE5, CHR 0x8C, CHR 0x96] @ [CHR 0xE5, CHR 0xA4, CHR 0xB1] @ [CHR 0xE8, CHR 0xB4, CHR 0xA5]
     @ [CHR 0xEF, CHR 0xBC, CHR 0x9A]"

definition msg_env_failed :: string where
  "msg_env_failed = ''.env '' @ [CHR 0xE6, CHR 0x96, CHR 0x87] @ [CHR 0xE4, CHR 0xBB, CHR 0xB6]
     @ [CHR 0xE9, CHR 0x85, CHR 0x8D] @ [CHR 0xE7, CHR 0xBD, CHR 0xAE] @ [CHR 0xE5, CHR 0xA4, CHR 0xB1]
     @ [CHR 0xE8, CHR 0xB4, CHR 0xA5]"

definition msg_db_create_failed :: string where
  "msg_db_create_failed = [CHR 0xE6, CHR 0x95, CHR 0xB0] @ [CHR 0xE6, CHR 0x8D, CHR 0xAE]
     @ [CHR 0xE5, CHR 0xBA, CHR 0x93] @ [CHR 0xE5, CHR 0x88, CHR 0x9B] @ [CHR 0xE5, CHR 0xBB, CHR 0xBA]
     @ [CHR 0xE5, CHR 0xA4, CHR 0xB1] @ [CHR 0xE8, CHR 0xB4, CHR 0xA5]"

definition msg_path_or_repo_required :: string where
  "msg_path_or_repo_required = ''path '' @ [CHR 0xE6, CHR 0x88, CHR 0x96] @ '' repo_url ''
     @ [CHR 0xE5, CHR 0xBF, CHR 0x85] @ [CHR 0xE9, CHR 0xA1, CHR 0xBB] @ [CHR 0xE6, CHR 0x8C, CHR 0x87]
     @ [CHR 0xE5, CHR 0xAE, CHR 0x9A] @ [CHR 0xE5, CHR 0x85, CHR 0xB6] @ [CHR 0xE4, CHR 0xB8, CHR 0xAD]
     @ [CHR 0xE4, CHR 0xB8, CHR 0x80] @ [CHR 0xE9, CHR 0xA1, CHR 0xB9]"

definition msg_path_and_repo_exclusive :: string where
  "msg_path_and_repo_exclusive = ''path '' @ [CHR 0xE5, CHR 0x92, CHR 0x8C] @ '' repo_url ''
     @ [CHR 0xE4, CHR 0xB8, CHR 0x8D] @ [CHR 0xE8, CHR 0x83, CHR 0xBD] @ [CHR 0xE5, CHR 0x90, CHR 0x8C]
     @ [CHR 0xE6, CHR 0x97, CHR 0xB6] @ [CHR 0xE6, CHR 0x8C, CHR 0x87] @ [CHR 0xE5, CHR 0xAE, CHR 0x9A]"

subsection \<open>\<^verbatim>\<open>execute_sql_scripts\<close> (lines 360-370)\<close>

definition execute_sql_scripts :: "('db, 'r, 'fs) env \<Rightarrow> string \<Rightarrow> bool \<Rightarrow> ('db, 'r, 'fs, unit) prog" where
  "execute_sql_scripts env sql_scripts is_init =
     seq (session_begin
            (try_except
               (bind (fs_read (ParseSqlScript sql_scripts) (parse_sql_script env sql_scripts))
                  (\<lambda>stmts. for_each stmts (\<lambda>stmt. db_call (Execute stmt) (session_execute env stmt))))
               (\<lambda>e. raise (Exit (msg_sql_failed @ str_exn e) 1))))
         (if \<not> is_init then console_print Msg_sql_done else ret ())"

text \<open>
  The reference run of a script's statements on a database, one after the other in the
  order of the list, up to the first that raises: its result with the database it
  leaves, and the events it causes.
\<close>

fun run_statements :: "('db, 'r, 'fs) env \<Rightarrow> string list \<Rightarrow> 'db \<Rightarrow> (exn + unit) \<times> 'db" where
  "run_statements env [] d = (Inr (), d)"
| "run_statements env (s # ss) d =
     (case session_execute env s d of
        (Inl e, d') \<Rightarrow> (Inl e, d')
      | (Inr u, d') \<Rightarrow> run_statements env ss d')"

fun statement_events :: "('db, 'r, 'fs) env \<Rightarrow> string list \<Rightarrow> 'db \<Rightarrow> event list" where
  "statement_events env [] d = []"
| "statement_events env (s # ss) d =
     (case session_execute env s d of
        (Inl e, d') \<Rightarrow> [Call (Execute s) (Raised e)]
      | (Inr u, d') \<Rightarrow> Call (Execute s) Returned # statement_events env ss d')"

subsection \<open>\<^verbatim>\<open>get_sql_scripts\<close> (lines 334-357)\<close>

text \<open>
  \<^verbatim>\<open>BASE_PATH / 'sql' / 'mysql'\<close>: the paths are strings, joined as pathlib joins a
  relative part on a POSIX system.
\<close>

definition path_join :: "string \<Rightarrow> string \<Rightarrow> string" where
  "path_join a b = a @ ''/'' @ b"

text \<open>Python's truth value of a \<^verbatim>\<open>str | None\<close>.\<close>

fun truthy :: "string option \<Rightarrow> bool" where
  "truthy None = False"
| "truthy (Some s) = (s \<noteq> [])"

fun py_str :: "string option \<Rightarrow> string" where
  "py_str None = ''None''"
| "py_str (Some s) = s"

definition main_sql_file :: "('db, 'r, 'fs) env \<Rightarrow> settings \<Rightarrow> string" where
  "main_sql_file env s =
     (let db_dir =
        (if DataBaseType_value mysql = DATABASE_TYPE s
         then path_join (path_join (BASE_PATH env) ''sql'') ''mysql''
         else path_join (path_join (BASE_PATH env) ''sql'') ''postgresql'')
      in if PrimaryKeyType_value autoincrement = DATABASE_PK_MODE s
         then path_join db_dir ''init_test_data.sql''
         else path_join db_dir ''init_snowflake_test_data.sql'')"

text \<open>The loop of lines 352-355, with the list it appends to.\<close>

fun plugin_scripts ::
  "('db, 'r, 'fs) env \<Rightarrow> string list \<Rightarrow> string list \<Rightarrow> ('db, 'r, 'fs, string list) prog" where
  "plugin_scripts env [] sql_scripts w = (Inr sql_scripts, w)"
| "plugin_scripts env (plugin # plugins) sql_scripts w =
     (let T = DATABASE_TYPE (settings w); K = DATABASE_PK_MODE (settings w) in
      case fs_read (GetPluginSql plugin T K) (get_plugin_sql env plugin T K) w of
        (Inl e, w') \<Rightarrow> (Inl e, w')
      | (Inr plugin_sql, w') \<Rightarrow>
          plugin_scripts env plugins
            (if truthy plugin_sql then sql_scripts @ [py_str plugin_sql] else sql_scripts) w')"

definition get_sql_scripts :: "('db, 'r, 'fs) env \<Rightarrow> ('db, 'r, 'fs, string list) prog" where
  "get_sql_scripts env w =
     (let main = main_sql_file env (settings w) in
      bind (fs_read (PathExists main) (\<lambda>f. Inr (path_exists env main f)))
        (\<lambda>ex. bind (fs_read GetPlugins (get_plugins env))
          (\<lambda>plugins. plugin_scripts env plugins (if ex then [main] else []))) w)"

subsection \<open>\<^verbatim>\<open>Prompt.ask\<close>\<close>

text \<open>
  A Python string is held as the bytes of its UTF-8 encoding.  \<^verbatim>\<open>str.strip()\<close> removes
  from both ends the characters that \<^verbatim>\<open>str.isspace\<close> accepts: the ASCII ones (U+0009 to
  U+000D, U+001C to U+0020) and U+0085, U+00A0, U+1680, U+2000 to U+200A, U+2028, U+2029,
  U+202F, U+205F and U+3000, listed here by their encodings.
\<close>

definition whitespace :: "string list" where
  "whitespace =
     [[CHR 0x09], [CHR 0x0A], [CHR 0x0B], [CHR 0x0C], [CHR 0x0D],
      [CHR 0x1C], [CHR 0x1D], [CHR 0x1E], [CHR 0x1F], [CHR 0x20],
      [CHR 0xC2, CHR 0x85], [CHR 0xC2, CHR 0xA0], [CHR 0xE1, CHR 0x9A, CHR 0x80],
      [CHR 0xE2, CHR 0x80, CHR 0x80], [CHR 0xE2, CHR 0x80, CHR 0x81], [CHR 0xE2, CHR 0x80, CHR 0x82],
      [CHR 0xE2, CHR 0x80, CHR 0x83], [CHR 0xE2, CHR 0x80, CHR 0x84], [CHR 0xE2, CHR 0x80, CHR 0x85],
      [CHR 0xE2, CHR 0x80, CHR 0x86], [CHR 0xE2, CHR 0x80, CHR 0x87], [CHR 0xE2, CHR 0x80, CHR 0x88],
      [CHR 0xE2, CHR 0x80, CHR 0x89], [CHR 0xE2, CHR 0x80, CHR 0x8A], [CHR 0xE2, CHR 0x80, CHR 0xA8],
      [CHR 0xE2, CHR 0x80, CHR 0xA9], [CHR 0xE2, CHR 0x80, CHR 0xAF], [CHR 0xE2, CHR 0x81, CHR 0x9F],
      [CHR 0xE3, CHR 0x80, CHR 0x80]]"

text \<open>The string without the longest run of the given characters at its front.\<close>

function drop_leading :: "string list \<Rightarrow> string \<Rightarrow> string" where
  "drop_leading cs s =
     (case find (\<lambda>c. c \<noteq> [] \<and> prefix c s) cs of
        None \<Rightarrow> s
      | Some c \<Rightarrow> drop_leading cs (drop (length c) s))"
  by pat_completeness auto
termination
proof (relation "measure (\<lambda>(cs, s). length s)")
  fix cs :: "string list" and s c :: string
  assume "find (\<lambda>c. c \<noteq> [] \<and> prefix c s) cs = Some c"
  then have "c \<noteq> []" and "prefix c s"
    by (auto simp add: find_Some_iff)
  then have "0 < length c" and "length c \<le> length s"
    by (auto simp add: prefix_length_le)
  then have "length s - length c < length s"
    by arith
  then show "((cs, drop (length c) s), (cs, s)) \<in> measure (\<lambda>(cs, s). length s)"
    by simp
qed simp

definition lstrip :: "string \<Rightarrow> string" where
  "lstrip s = drop_leading whitespace s"

definition rstrip :: "string \<Rightarrow> string" where
  "rstrip s = rev (drop_leading (map rev whitespace) (rev s))"

definition strip :: "string \<Rightarrow> string" where
  "strip s = rstrip (lstrip s)"

text \<open>
  \<^verbatim>\<open>rich.prompt.Prompt.ask\<close> with a default: it reads a line; the empty line gives the
  default; otherwise the line is stripped and, when choices are given and it is not one
  of them, the prompt is shown again.  At the end of the input \<^verbatim>\<open>input()\<close> raises
  \<^verbatim>\<open>EOFError\<close>, and so does \<^verbatim>\<open>getpass.getpass\<close>, through which a prompt with
  \<^verbatim>\<open>password=True\<close> (\<open>is_password\<close>) reads, but without a text.  The function returns
  the answer, the lines left and how often the prompt was shown.  The trace records each showing of the
  prompt and the answer that \<^verbatim>\<open>Prompt.ask\<close> returns.
\<close>

fun ask_loop ::
  "string list option \<Rightarrow> bool \<Rightarrow> string \<Rightarrow> string list \<Rightarrow> (exn + string) \<times> string list \<times> nat" where
  "ask_loop choices is_password dflt [] = (Inl (if is_password then EOFError_getpass else EOFError), [], 1)"
| "ask_loop choices is_password dflt (line # lines) =
     (if line = [] then (Inr dflt, lines, 1)
      else if (case choices of None \<Rightarrow> True | Some cs \<Rightarrow> strip line \<in> set cs)
        then (Inr (strip line), lines, 1)
      else (case ask_loop choices is_password dflt lines of (r, rest, n) \<Rightarrow> (r, rest, Suc n)))"

definition Prompt_ask ::
  "prompt \<Rightarrow> string list option \<Rightarrow> bool \<Rightarrow> string \<Rightarrow> ('db, 'r, 'fs, string) prog" where
  "Prompt_ask p choices is_password dflt w =
     (case ask_loop choices is_password dflt (stdin w) of
        (r, rest, n) \<Rightarrow>
          (r, w\<lparr>stdin := rest,
               trace := trace w @ replicate n (Ask p)
                 @ (case r of Inl e \<Rightarrow> [] | Inr a \<Rightarrow> [Answer p a])\<rparr>))"

text \<open>\<^verbatim>\<open>str.lower\<close> on ASCII letters; every other byte is kept.\<close>

definition lower_char :: "char \<Rightarrow> char" where
  "lower_char c =
     (if (65::nat) \<le> of_char c \<and> (of_char c :: nat) \<le> 90 then char_of ((of_char c :: nat) + 32) else c)"

definition lower :: "string \<Rightarrow> string" where
  "lower s = map lower_char s"

subsection \<open>\<^verbatim>\<open>init\<close> (lines 200-255)\<close>

text \<open>The body of the \<^verbatim>\<open>try\<close> statement, lines 237-251.\<close>

definition init_try :: "('db, 'r, 'fs) env \<Rightarrow> ('db, 'r, 'fs, unit) prog" where
  "init_try env w =
     (let s = settings w in
      seq (console_print Msg_clean_redis)
     (seq (cache_call (DeletePrefix (JWT_USER_REDIS_PREFIX s)) (delete_prefix env (JWT_USER_REDIS_PREFIX s)))
     (seq (cache_call (DeletePrefix (TOKEN_EXTRA_INFO_REDIS_PREFIX s))
            (delete_prefix env (TOKEN_EXTRA_INFO_REDIS_PREFIX s)))
     (seq (cache_call (DeletePrefix (TOKEN_REDIS_PREFIX s)) (delete_prefix env (TOKEN_REDIS_PREFIX s)))
     (seq (cache_call (DeletePrefix (TOKEN_REFRESH_REDIS_PREFIX s))
            (delete_prefix env (TOKEN_REFRESH_REDIS_PREFIX s)))
     (seq (console_print Msg_rebuild_tables)
     (seq (db_call DropTables (drop_tables env))
     (seq (db_call CreateTables (create_tables env))
     (seq (console_print Msg_run_sql_scripts)
     (bind (get_sql_scripts env) (\<lambda>sql_scripts.
      seq (for_each sql_scripts (\<lambda>sql_script.
             seq (console_print (Msg_executing sql_script))
                 (execute_sql_scripts env sql_script True)))
     (seq (console_print Msg_init_success)
          (console_print Msg_try_fba_run)))))))))))) w)"

definition init :: "('db, 'r, 'fs) env \<Rightarrow> ('db, 'r, 'fs, unit) prog" where
  "init env w =
     (let s = settings w in
      bind (fs_read GetPlugins (get_plugins env)) (\<lambda>plugins.
      seq (console_print (Panel_init (DATABASE_TYPE s) (DATABASE_SCHEMA s) (DATABASE_HOST s)
             (DATABASE_PORT s) (DATABASE_PK_MODE s) (REDIS_DATABASE s) plugins))
      (bind (Prompt_ask Ask_confirm_init (Some [''y'', ''n'']) False ''n'') (\<lambda>ok.
       if lower ok = ''y'' then
         seq (console_print Msg_init_start)
          (try_except (init_try env)
            (\<lambda>e. raise (Exit (msg_init_failed @ str_exn e) 1)))
       else console_print Msg_init_cancelled))) w)"

subsection \<open>The \<^verbatim>\<open>secrets\<close> module\<close>

text \<open>
  \<^verbatim>\<open>secrets.token_bytes(n)\<close> takes the next \<open>n\<close> bytes of the operating system's
  entropy.  \<^verbatim>\<open>token_hex(n)\<close> is \<^verbatim>\<open>token_bytes(n).hex()\<close>, and \<^verbatim>\<open>token_urlsafe(n)\<close> is
  \<^verbatim>\<open>base64.urlsafe_b64encode(token_bytes(n)).rstrip(b'=').decode('ascii')\<close>.
\<close>

definition token_bytes :: "nat \<Rightarrow> ('db, 'r, 'fs, 8 word list) prog" where
  "token_bytes n w = (Inr (map (entropy w) [0..<n]), w\<lparr>entropy := (\<lambda>i. entropy w (i + n))\<rparr>)"

definition hexdigits :: string where
  "hexdigits = ''0123456789abcdef''"

definition hex_byte :: "8 word \<Rightarrow> string" where
  "hex_byte b = [hexdigits ! (unat b div 16), hexdigits ! (unat b mod 16)]"

definition bytes_hex :: "8 word list \<Rightarrow> string" where
  "bytes_hex bs = concat (map hex_byte bs)"

definition token_hex :: "nat \<Rightarrow> ('db, 'r, 'fs, string) prog" where
  "token_hex n = bind (token_bytes n) (\<lambda>bs. ret (bytes_hex bs))"

definition urlsafe_alphabet :: string where
  "urlsafe_alphabet = ''ABCDEFGHIJKLMNOPQRSTUVWXYZabcdefghijklmnopqrstuvwxyz0123456789-_''"

definition sextet :: "nat \<Rightarrow> char" where
  "sextet n = urlsafe_alphabet ! n"

fun urlsafe_b64encode :: "8 word list \<Rightarrow> string" where
  "urlsafe_b64encode [] = []"
| "urlsafe_b64encode [a] =
     [sextet (unat a div 4), sextet (unat a mod 4 * 16), CHR ''='', CHR ''='']"
| "urlsafe_b64encode [a, b] =
     [sextet (unat a div 4), sextet (unat a mod 4 * 16 + unat b div 16),
      sextet (unat b mod 16 * 4), CHR ''='']"
| "urlsafe_b64encode (a # b # c # bs) =
     [sextet (unat a div 4), sextet (unat a mod 4 * 16 + unat b div 16),
      sextet (unat b mod 16 * 4 + unat c div 64), sextet (unat c mod 64)]
     @ urlsafe_b64encode bs"

text \<open>\<^verbatim>\<open>rstrip(b'=')\<close>.\<close>

definition rstrip_pad :: "string \<Rightarrow> string" where
  "rstrip_pad s = rev (dropWhile (\<lambda>c. c = CHR ''='') (rev s))"

definition token_urlsafe :: "nat \<Rightarrow> ('db, 'r, 'fs, string) prog" where
  "token_urlsafe n = bind (token_bytes n) (\<lambda>bs. ret (rstrip_pad (urlsafe_b64encode bs)))"

subsection \<open>\<^verbatim>\<open>str.replace\<close> and \<^verbatim>\<open>re.sub\<close>\<close>

text \<open>
  \<^verbatim>\<open>s.replace(old, new)\<close>: every occurrence of \<open>old\<close>, found from the left without
  overlap; an empty \<open>old\<close> matches before every character and at the end.
\<close>

function str_replace :: "string \<Rightarrow> string \<Rightarrow> string \<Rightarrow> string" where
  "str_replace old new [] = (if old = [] then new else [])"
| "str_replace old new (c # cs) =
     (if old = [] then new @ c # str_replace old new cs
      else if prefix old (c # cs) then new @ str_replace old new (drop (length old) (c # cs))
      else c # str_replace old new cs)"
  by pat_completeness auto
termination
  by (relation "measure (\<lambda>(old, new, s). length s)") auto

text \<open>
  \<^verbatim>\<open>re.sub(r"KEY='[^']*'", repl, s)\<close> for a key of letters and underscores: a match is the
  key, \<^verbatim>\<open>='\<close>, the characters up to the next quote, and that quote.  The replacement
  is put in as it is, which is what \<^verbatim>\<open>re.sub\<close> does with a replacement that has no
  backslash.
\<close>

definition quoted :: "string \<Rightarrow> string" where
  "quoted s = CHR 0x27 # s @ [CHR 0x27]"

function re_sub_quoted :: "string \<Rightarrow> string \<Rightarrow> string \<Rightarrow> string" where
  "re_sub_quoted key repl [] = []"
| "re_sub_quoted key repl (c # cs) =
     (if prefix (key @ [CHR ''='', CHR 0x27]) (c # cs) then
        (case dropWhile (\<lambda>x. x \<noteq> CHR 0x27) (drop (length key + 2) (c # cs)) of
           [] \<Rightarrow> c # re_sub_quoted key repl cs
         | q # rest \<Rightarrow> repl @ re_sub_quoted key repl rest)
      else c # re_sub_quoted key repl cs)"
  by pat_completeness auto
termination
proof (relation "measure (\<lambda>(key, repl, s). length s)")
  fix key repl :: string and c :: char and cs x21 x22
  assume "dropWhile (\<lambda>x. x \<noteq> CHR 0x27) (drop (length key + 2) (c # cs)) = x21 # x22"
  then have "Suc (length x22) = length (dropWhile (\<lambda>x. x \<noteq> CHR 0x27) (drop (length key + 2) (c # cs)))"
    by simp
  also have "\<dots> \<le> length (drop (length key + 2) (c # cs))"
    by (rule length_dropWhile_le)
  also have "\<dots> \<le> length (c # cs)"
    by simp
  finally show "((key, repl, x22), (key, repl, c # cs)) \<in> measure (\<lambda>(key, repl, s). length s)"
    by simp
qed auto

subsection \<open>\<^verbatim>\<open>setup_env_file\<close> (lines 43-102)\<close>

definition assign_settings :: "(settings \<Rightarrow> settings) \<Rightarrow> ('db, 'r, 'fs, unit) prog" where
  "assign_settings f w = (Inr (), w\<lparr>settings := f (settings w)\<rparr>)"

definition read_settings :: "('db, 'r, 'fs, settings) prog" where
  "read_settings w = (Inr (settings w), w)"

text \<open>
  The text side of lines 71-93: the replacements in the template, with the values that
  the same lines assign to the settings.
\<close>

definition render_env :: "string \<Rightarrow> settings \<Rightarrow> string" where
  "render_env env_content s =
     (let c = env_content;
          c = str_replace (''DATABASE_TYPE='' @ quoted ''postgresql'') (''DATABASE_TYPE='' @ quoted (DATABASE_TYPE s)) c;
          c = str_replace (''DATABASE_HOST='' @ quoted ''127.0.0.1'') (''DATABASE_HOST='' @ quoted (DATABASE_HOST s)) c;
          c = str_replace (''DATABASE_PORT=5432'') (''DATABASE_PORT='' @ DATABASE_PORT s) c;
          c = str_replace (''DATABASE_USER='' @ quoted ''postgres'') (''DATABASE_USER='' @ quoted (DATABASE_USER s)) c;
          c = str_replace (''DATABASE_PASSWORD='' @ quoted ''123456'') (''DATABASE_PASSWORD='' @ quoted (DATABASE_PASSWORD s)) c;
          c = str_replace (''REDIS_HOST='' @ quoted ''127.0.0.1'') (''REDIS_HOST='' @ quoted (REDIS_HOST s)) c;
          c = str_replace (''REDIS_PORT=6379'') (''REDIS_PORT='' @ REDIS_PORT s) c;
          c = str_replace (''REDIS_PASSWORD='' @ quoted []) (''REDIS_PASSWORD='' @ quoted (REDIS_PASSWORD s)) c;
          c = str_replace (''REDIS_DATABASE=0'') (''REDIS_DATABASE='' @ REDIS_DATABASE s) c;
          c = re_sub_quoted ''TOKEN_SECRET_KEY'' (''TOKEN_SECRET_KEY='' @ quoted (TOKEN_SECRET_KEY s)) c
      in re_sub_quoted ''OPERA_LOG_ENCRYPT_SECRET_KEY''
           (''OPERA_LOG_ENCRYPT_SECRET_KEY='' @ quoted (OPERA_LOG_ENCRYPT_SECRET_KEY s)) c)"

definition setup_env_file :: "('db, 'r, 'fs) env \<Rightarrow> ('db, 'r, 'fs, bool) prog" where
  "setup_env_file env =
     (let env_path = path_join (BASE_PATH env) ''.env'';
          env_example_path = path_join (BASE_PATH env) ''.env.example'' in
      bind (fs_read (PathExists env_example_path) (\<lambda>f. Inr (path_exists env env_example_path f)))
      (\<lambda>ex.
      if \<not> ex then seq (console_print Msg_env_example_missing) (ret False)
      else try_except
     (bind (fs_read (ReadText env_example_path) (read_text env env_example_path)) (\<lambda>env_content.
     (seq (console_print Msg_configure_database)
     (bind (Prompt_ask Ask_db_type (Some [''mysql'', ''postgresql'']) False ''postgresql'') (\<lambda>db_type.
     (bind (Prompt_ask Ask_db_host None False ''127.0.0.1'') (\<lambda>db_host.
     (bind (Prompt_ask Ask_db_port None False (if db_type = ''postgresql'' then ''5432'' else ''3306'')) (\<lambda>db_port.
     (bind (Prompt_ask Ask_db_user None False (if db_type = ''postgresql'' then ''postgres'' else ''root'')) (\<lambda>db_user.
     (bind (Prompt_ask Ask_db_password None True ''123456'') (\<lambda>db_password.
     (seq (console_print Msg_configure_redis)
     (bind (Prompt_ask Ask_redis_host None False ''127.0.0.1'') (\<lambda>redis_host.
     (bind (Prompt_ask Ask_redis_port None False ''6379'') (\<lambda>redis_port.
     (bind (Prompt_ask Ask_redis_password None True []) (\<lambda>redis_password.
     (bind (Prompt_ask Ask_redis_db None False ''0'') (\<lambda>redis_db.
     (seq (console_print Msg_generate_secrets)
     (bind (token_urlsafe 32) (\<lambda>token_secret.
     (bind (token_hex 32) (\<lambda>opera_log_secret.
     (seq (console_print Msg_write_env)
     (seq (assign_settings (\<lambda>s. s\<lparr>DATABASE_TYPE := db_type, DATABASE_HOST := db_host,
             DATABASE_PORT := db_port, DATABASE_USER := db_user, DATABASE_PASSWORD := db_password,
             REDIS_HOST := redis_host, REDIS_PORT := redis_port, REDIS_PASSWORD := redis_password,
             REDIS_DATABASE := redis_db, TOKEN_SECRET_KEY := token_secret,
             OPERA_LOG_ENCRYPT_SECRET_KEY := opera_log_secret\<rparr>))
     (bind (read_settings) (\<lambda>s.
     (seq (fs_call (WriteText env_path (render_env env_content s))
             (write_text env env_path (render_env env_content s)))
     (seq (console_print Msg_env_created)
      (ret True))))))))))))))))))))))))))))))))))
     (\<lambda>e. seq (console_print (Msg_env_create_failed (str_exn e))) (ret False))))"

subsection \<open>\<^verbatim>\<open>create_database_if_not_exists\<close> (lines 105-161)\<close>

text \<open>The SQL texts of lines 118-123 and 133-139, for the schema name and the character set.\<close>

definition mysql_check_sql :: "settings \<Rightarrow> string" where
  "mysql_check_sql s = ''SHOW DATABASES LIKE '' @ quoted (DATABASE_SCHEMA s)"

definition mysql_drop_sql :: "settings \<Rightarrow> string" where
  "mysql_drop_sql s = ''DROP DATABASE IF EXISTS '' @ [CHR 0x60] @ DATABASE_SCHEMA s @ [CHR 0x60]"

definition mysql_create_sql :: "settings \<Rightarrow> string" where
  "mysql_create_sql s = ''CREATE DATABASE '' @ [CHR 0x60] @ DATABASE_SCHEMA s @ [CHR 0x60]
     @ '' CHARACTER SET '' @ DATABASE_CHARSET s @ '' COLLATE '' @ DATABASE_CHARSET s @ ''_unicode_ci''"

definition pg_check_sql :: "settings \<Rightarrow> string" where
  "pg_check_sql s = ''SELECT 1 FROM pg_database WHERE datname = '' @ quoted (DATABASE_SCHEMA s)"

definition pg_terminate_sql :: "settings \<Rightarrow> string" where
  "pg_terminate_sql s = ''SELECT pg_terminate_backend(pid) FROM pg_stat_activity ''
     @ ''WHERE datname = '' @ quoted (DATABASE_SCHEMA s) @ '' AND pid <> pg_backend_pid()''"

definition pg_drop_sql :: "settings \<Rightarrow> string" where
  "pg_drop_sql s = ''DROP DATABASE IF EXISTS '' @ DATABASE_SCHEMA s"

definition pg_create_sql :: "settings \<Rightarrow> string" where
  "pg_create_sql s = ''CREATE DATABASE '' @ DATABASE_SCHEMA s"

definition mysql_url :: "settings \<Rightarrow> URL" where
  "mysql_url s = \<lparr>drivername = ''mysql+asyncmy'', username = DATABASE_USER s,
     password = DATABASE_PASSWORD s, host = DATABASE_HOST s, port = DATABASE_PORT s,
     database = None\<rparr>"

definition pg_url :: "settings \<Rightarrow> URL" where
  "pg_url s = \<lparr>drivername = ''postgresql+asyncpg'', username = DATABASE_USER s,
     password = DATABASE_PASSWORD s, host = DATABASE_HOST s, port = DATABASE_PORT s,
     database = Some ''postgres''\<rparr>"

text \<open>
  \<^verbatim>\<open>conn.execute(text(sql))\<close> on the administrative connection; the number is that of
  the rows of the result, so that \<^verbatim>\<open>result.fetchone() is not None\<close> is \<open>0 < n\<close>.
\<close>

definition conn_call :: "('db, 'r, 'fs) env \<Rightarrow> URL \<Rightarrow> string \<Rightarrow> ('db, 'r, 'fs, nat) prog" where
  "conn_call env url sql w =
     (case conn_execute env url sql (db w) of
        (Inl e, d) \<Rightarrow> (Inl e, log (Call (ConnExecute sql) (Raised e)) (w\<lparr>db := d\<rparr>))
      | (Inr n, d) \<Rightarrow> (Inr n, log (Call (ConnExecute sql) (Rows n)) (w\<lparr>db := d\<rparr>)))"

text \<open>\<^verbatim>\<open>URL.create\<close> and \<^verbatim>\<open>create_async_engine\<close> of lines 111-141, which open no connection.\<close>

definition engine_call :: "('db, 'r, 'fs) env \<Rightarrow> URL \<Rightarrow> ('db, 'r, 'fs, unit) prog" where
  "engine_call env url w =
     (case create_async_engine env url of
        Some e \<Rightarrow> (Inl e, log (Call (CreateEngine url) (Raised e)) w)
      | None \<Rightarrow> (Inr (), log (Call (CreateEngine url) Returned) w))"

text \<open>\<^verbatim>\<open>await engine.dispose()\<close> of line 156.\<close>

definition engine_dispose :: "('db, 'r, 'fs, unit) prog" where
  "engine_dispose w = (Inr (), log (Call Dispose Returned) w)"

definition create_database_if_not_exists :: "('db, 'r, 'fs) env \<Rightarrow> ('db, 'r, 'fs, bool) prog" where
  "create_database_if_not_exists env w =
     (let s = settings w in
      try_except
        (let (terminate_sql, url, check_sql, drop_sql, create_sql) =
           (if DataBaseType_value mysql = DATABASE_TYPE s
            then (None, mysql_url s, mysql_check_sql s, mysql_drop_sql s, mysql_create_sql s)
            else (Some (pg_terminate_sql s), pg_url s, pg_check_sql s, pg_drop_sql s, pg_create_sql s))
         in
         seq (engine_call env url)
        (seq (try_finally
               (seq (db_call Connect (engine_connect env url))
               (bind (conn_call env url check_sql) (\<lambda>rows.
                let exists = (0 < rows) in
                seq (console_print (Msg_rebuild_database (DATABASE_SCHEMA s)))
               (seq (if exists then
                       seq (if truthy terminate_sql
                            then seq (conn_call env url (py_str terminate_sql)) (ret ())
                            else ret ())
                           (seq (conn_call env url drop_sql) (ret ()))
                     else ret ())
               (seq (conn_call env url create_sql)
                    (console_print Msg_database_created))))))
               (engine_dispose))
             (ret True)))
        (\<lambda>e. seq (console_print (Msg_database_create_failed (str_exn e))) (ret False)) w)"

subsection \<open>\<^verbatim>\<open>auto_init\<close> (lines 164-197)\<close>

definition auto_init :: "('db, 'r, 'fs) env \<Rightarrow> ('db, 'r, 'fs, unit) prog" where
  "auto_init env =
     seq (console_print Msg_step1)
    (seq (console_print Panel_env)
    (bind (setup_env_file env) (\<lambda>configured.
     if \<not> configured then raise (Exit msg_env_failed 1)
     else
     seq (console_print Msg_step2)
    (bind read_settings (\<lambda>s.
     seq (console_print (Panel_database (DATABASE_TYPE s) (DATABASE_SCHEMA s) (DATABASE_HOST s)
            (DATABASE_PORT s)))
    (bind (Prompt_ask Ask_confirm_database (Some [''y'', ''n'']) False ''n'') (\<lambda>ok.
     seq (if lower ok = ''y'' then
            bind (create_database_if_not_exists env) (\<lambda>created.
              if \<not> created then raise (Exit msg_db_create_failed 1) else ret ())
          else console_print Msg_database_cancelled)
    (seq (console_print Msg_step3)
         (init env)))))))))"

subsection \<open>\<^verbatim>\<open>install_plugin\<close> (lines 302-331)\<close>

definition install_plugin ::
  "('db, 'r, 'fs) env \<Rightarrow> string option \<Rightarrow> string option \<Rightarrow> bool \<Rightarrow> DataBaseType \<Rightarrow> PrimaryKeyType
     \<Rightarrow> ('db, 'r, 'fs, unit) prog" where
  "install_plugin env path repo_url no_sql db_type pk_type =
     (if \<not> truthy path \<and> \<not> truthy repo_url then raise (Exit msg_path_or_repo_required 1)
      else if truthy path \<and> truthy repo_url then raise (Exit msg_path_and_repo_exclusive 1)
      else
        seq (console_print Msg_install_start)
       (try_except
         (bind (if truthy path
                then bind (fs_call (InstallZip (py_str path)) (install_zip_plugin env (py_str path)))
                       (\<lambda>name. ret (Some name))
                else ret None) (\<lambda>plugin_name1.
          bind (if truthy repo_url
                then bind (fs_call (InstallGit (py_str repo_url)) (install_git_plugin env (py_str repo_url)))
                       (\<lambda>name. ret (Some name))
                else ret plugin_name1) (\<lambda>plugin_name.
          seq (console_print (Msg_plugin_installed (py_str plugin_name)))
         (bind (fs_read (GetPluginSql (py_str plugin_name) (DataBaseType_value db_type)
                           (PrimaryKeyType_value pk_type))
                  (get_plugin_sql env (py_str plugin_name) (DataBaseType_value db_type)
                     (PrimaryKeyType_value pk_type))) (\<lambda>sql_file.
          if truthy sql_file \<and> \<not> no_sql then
            seq (console_print Msg_plugin_sql_start)
                (execute_sql_scripts env (py_str sql_file) False)
          else ret ())))))
         (\<lambda>e. raise (Exit (case e of BaseExceptionError msg s \<Rightarrow> msg | _ \<Rightarrow> str_exn e) 1))))"

subsection \<open>The commands (lines 373-455)\<close>

text \<open>\<^verbatim>\<open>Init.__call__\<close>, \<^verbatim>\<open>Add.__call__\<close> and \<^verbatim>\<open>FbaCli.__call__\<close>.\<close>

definition Init_call :: "('db, 'r, 'fs) env \<Rightarrow> bool \<Rightarrow> ('db, 'r, 'fs, unit) prog" where
  "Init_call env auto = (if auto then auto_init env else init env)"

definition Add_call ::
  "('db, 'r, 'fs) env \<Rightarrow> string option \<Rightarrow> string option \<Rightarrow> bool \<Rightarrow> DataBaseType \<Rightarrow> PrimaryKeyType
     \<Rightarrow> ('db, 'r, 'fs, unit) prog" where
  "Add_call env path repo_url no_sql db_type pk_type =
     install_plugin env path repo_url no_sql db_type pk_type"

definition FbaCli_call :: "('db, 'r, 'fs) env \<Rightarrow> string \<Rightarrow> ('db, 'r, 'fs, unit) prog" where
  "FbaCli_call env sql = (if sql \<noteq> [] then execute_sql_scripts env sql False else ret ())"

text \<open>
  The exit status of the process: that of the \<^verbatim>\<open>cappa.Exit\<close> which \<^verbatim>\<open>cappa.invoke_async\<close>
  receives, 0 when the command returns, and 1 for any other exception, as the
  interpreter ends on an exception nobody caught.
\<close>

fun exit_status :: "exn + unit \<Rightarrow> int" where
  "exit_status (Inr u) = 0"
| "exit_status (Inl (Exit message code)) = code"
| "exit_status (Inl e) = 1"

section \<open>Observing a run\<close>

text \<open>The events a run has added to the trace.\<close>

definition new_events :: "('db, 'r, 'fs) world \<Rightarrow> ('db, 'r, 'fs) world \<Rightarrow> event list" where
  "new_events w w' = drop (length (trace w)) (trace w')"

text \<open>
  The administrative connection and the existence check of the dialect (lines 110-135).
\<close>

definition provision_url :: "settings \<Rightarrow> URL" where
  "provision_url s = (if DataBaseType_value mysql = DATABASE_TYPE s then mysql_url s else pg_url s)"

definition provision_check_sql :: "settings \<Rightarrow> string" where
  "provision_check_sql s =
     (if DataBaseType_value mysql = DATABASE_TYPE s then mysql_check_sql s else pg_check_sql s)"

text \<open>
  What the provisioner is to send after the existence check has returned \<open>rows\<close> rows:
  for a database that exists the termination of its connections (never for MySQL) and
  the drop, and then in either case the creation.
\<close>

definition provision_plan :: "settings \<Rightarrow> nat \<Rightarrow> string list" where
  "provision_plan s rows =
     (if DataBaseType_value mysql = DATABASE_TYPE s
      then (if 0 < rows then [mysql_drop_sql s] else []) @ [mysql_create_sql s]
      else (if 0 < rows then [pg_terminate_sql s, pg_drop_sql s] else []) @ [pg_create_sql s])"

text \<open>
  The reference run of a list of statements over the administrative connection, one
  after the other in the order of the list, up to the first that raises: its result, the
  database server it leaves, and the statements sent, each with how it ended.
\<close>

fun send_queries ::
  "('db, 'r, 'fs) env \<Rightarrow> URL \<Rightarrow> string list \<Rightarrow> 'db \<Rightarrow> (exn + unit) \<times> 'db \<times> (string \<times> outcome) list" where
  "send_queries env url [] d = (Inr (), d, [])"
| "send_queries env url (q # qs) d =
     (case conn_execute env url q d of
        (Inl e, d') \<Rightarrow> (Inl e, d', [(q, Raised e)])
      | (Inr n, d') \<Rightarrow>
          (case send_queries env url qs d' of (r, d2, sent) \<Rightarrow> (r, d2, (q, Rows n) # sent)))"

definition query_events :: "(string \<times> outcome) list \<Rightarrow> event list" where
  "query_events sent = map (\<lambda>(q, out). Call (ConnExecute q) out) sent"

text \<open>The postcondition of a run from a given world.\<close>

definition post ::
  "('db, 'r, 'fs, 'a) prog \<Rightarrow> ('db, 'r, 'fs) world \<Rightarrow> (exn + 'a \<Rightarrow> ('db, 'r, 'fs) world \<Rightarrow> bool) \<Rightarrow> bool" where
  "post m w Q = (case m w of (r, w') \<Rightarrow> Q r w')"

subsection \<open>An installation to run the program on\<close>

text \<open>
  The database is the list of the statements it has taken, the cache the list of the
  prefixes deleted from it, the file system the list of the installed plugins.  The
  statement \<open>FAIL\<close> raises; plugin \<open>a\<close> has a script of two statements, plugin \<open>b\<close>
  one of five of which the third fails, and no other plugin has a script.
\<close>

definition example_settings :: settings where
  "example_settings = \<lparr>DATABASE_TYPE = ''postgresql'', DATABASE_HOST = ''127.0.0.1'',
     DATABASE_PORT = ''5432'', DATABASE_USER = ''postgres'', DATABASE_PASSWORD = ''123456'',
     DATABASE_SCHEMA = ''fba'', DATABASE_CHARSET = ''utf8mb4'', DATABASE_PK_MODE = ''autoincrement'',
     REDIS_HOST = ''127.0.0.1'', REDIS_PORT = ''6379'', REDIS_PASSWORD = [], REDIS_DATABASE = ''0'',
     TOKEN_SECRET_KEY = [], OPERA_LOG_ENCRYPT_SECRET_KEY = [],
     JWT_USER_REDIS_PREFIX = ''fba:user'', TOKEN_EXTRA_INFO_REDIS_PREFIX = ''fba:token_extra_info'',
     TOKEN_REDIS_PREFIX = ''fba:token'', TOKEN_REFRESH_REDIS_PREFIX = ''fba:refresh_token''\<rparr>"

definition example_env :: "(string list, string list, string list) env" where
  "example_env = \<lparr>BASE_PATH = ''/fba'',
     path_exists = (\<lambda>p f. p = ''/fba/.env.example''),
     read_text = (\<lambda>p f. if p = ''/fba/.env.example'' then Inr ''REDIS_DATABASE=0'' else Inl (PyError ''no such file'')),
     write_text = (\<lambda>p c f. (Inr (), f)),
     get_plugins = (\<lambda>f. Inr f),
     get_plugin_sql = (\<lambda>p t k f.
        Inr (if p = ''a'' then Some ''a.sql'' else if p = ''b'' then Some ''b.sql'' else None)),
     parse_sql_script = (\<lambda>p f.
        if p = ''a.sql'' then Inr [''A1'', ''A2'']
        else if p = ''b.sql'' then Inr [''B1'', ''B2'', ''FAIL'', ''B4'', ''B5'']
        else Inl (PyError ''no such file'')),
     install_zip_plugin = (\<lambda>p f. (Inr ''a'', f @ [''a''])),
     install_git_plugin = (\<lambda>u f. (Inr ''b'', f @ [''b''])),
     delete_prefix = (\<lambda>p c. (Inr (), c @ [p])),
     drop_tables = (\<lambda>d. (Inr (), [])),
     create_tables = (\<lambda>d. (Inr (), [''tables''])),
     session_execute = (\<lambda>stmt d. if stmt = ''FAIL'' then (Inl (PyError ''boom''), d) else (Inr (), d @ [stmt])),
     create_async_engine = (\<lambda>url. None),
     engine_connect = (\<lambda>url d. (Inr (), d)),
     conn_execute = (\<lambda>url sql d. (Inr (length d), d @ [sql]))\<rparr>"

definition example_world :: "string list \<Rightarrow> string list \<Rightarrow> (string list, string list, string list) world" where
  "example_world plugins lines = \<lparr>settings = example_settings, db = [''old''], cache = [],
     fs = plugins, stdin = lines, entropy = (\<lambda>i. of_nat i), trace = []\<rparr>"

text \<open>
  What the operator types in the example of auto mode: nine empty lines, which take the
  defaults of the environment step, \<open>n\<close> followed by an ideographic space (U+3000) to
  the confirmation of the database step, and \<open>n\<close> to that of step 3.
\<close>

definition example_lines :: "string list" where
  "example_lines = [[], [], [], [], [], [], [], [], [],
     ''n'' @ [CHR 0xE3, CHR 0x80, CHR 0x80], ''n'']"

section \<open>Rules for postconditions\<close>

lemma post_ret: "post (ret a) w Q = Q (Inr a) w"
  by (simp add: post_def ret_def)

lemma post_raise: "post (raise e) w Q = Q (Inl e) w"
  by (simp add: post_def raise_def)

lemma post_bind:
  "post (bind m f) w Q =
     post m w (\<lambda>r w1. case r of Inl e \<Rightarrow> Q (Inl e) w1 | Inr a \<Rightarrow> post (f a) w1 Q)"
  by (simp add: post_def bind_def split: prod.splits sum.splits)

lemma post_seq:
  "post (seq m n) w Q =
     post m w (\<lambda>r w1. case r of Inl e \<Rightarrow> Q (Inl e) w1 | Inr a \<Rightarrow> post n w1 Q)"
  by (simp add: seq_def post_bind)

lemma post_try_except:
  "post (try_except m h) w Q =
     post m w (\<lambda>r w1. case r of
        Inl e \<Rightarrow> if is_Exception e then post (h e) w1 Q else Q (Inl e) w1
      | Inr a \<Rightarrow> Q (Inr a) w1)"
  by (simp add: post_def try_except_def split: prod.splits sum.splits)

lemma post_try_finally:
  "post (try_finally m fin) w Q =
     post m w (\<lambda>r w1. post fin w1 (\<lambda>r2 w2. case r2 of Inl e \<Rightarrow> Q (Inl e) w2 | Inr u \<Rightarrow> Q r w2))"
  by (simp add: post_def try_finally_def split: prod.splits sum.splits)

lemma post_print: "post (console_print m) w Q = Q (Inr ()) (w\<lparr>trace := trace w @ [Print m]\<rparr>)"
  by (simp add: post_def console_print_def log_def)

lemma post_fs_read:
  "post (fs_read a f) w Q = Q (f (fs w)) (w\<lparr>trace := trace w @ [Call a (outcome_of (f (fs w)))]\<rparr>)"
  by (simp add: post_def fs_read_def log_def Let_def)

lemma post_fs_call:
  "post (fs_call a f) w Q =
     (case f (fs w) of (r, x) \<Rightarrow> Q r (w\<lparr>fs := x, trace := trace w @ [Call a (outcome_of r)]\<rparr>))"
  by (simp add: post_def fs_call_def log_def split: prod.splits)

lemma post_cache_call:
  "post (cache_call a f) w Q =
     (case f (cache w) of (r, c) \<Rightarrow> Q r (w\<lparr>cache := c, trace := trace w @ [Call a (outcome_of r)]\<rparr>))"
  by (simp add: post_def cache_call_def log_def split: prod.splits)

lemma post_db_call:
  "post (db_call a f) w Q =
     (case f (db w) of (r, d) \<Rightarrow> Q r (w\<lparr>db := d, trace := trace w @ [Call a (outcome_of r)]\<rparr>))"
  by (simp add: post_def db_call_def log_def split: prod.splits)

lemma post_conn_call:
  "post (conn_call env url sql) w Q =
     (case conn_execute env url sql (db w) of
        (Inl e, d) \<Rightarrow> Q (Inl e) (w\<lparr>db := d, trace := trace w @ [Call (ConnExecute sql) (Raised e)]\<rparr>)
      | (Inr n, d) \<Rightarrow> Q (Inr n) (w\<lparr>db := d, trace := trace w @ [Call (ConnExecute sql) (Rows n)]\<rparr>))"
  by (simp add: post_def conn_call_def log_def split: prod.splits sum.splits)

lemma post_engine_call:
  "post (engine_call env url) w Q =
     (case create_async_engine env url of
        Some e \<Rightarrow> Q (Inl e) (w\<lparr>trace := trace w @ [Call (CreateEngine url) (Raised e)]\<rparr>)
      | None \<Rightarrow> Q (Inr ()) (w\<lparr>trace := trace w @ [Call (CreateEngine url) Returned]\<rparr>))"
  by (simp add: post_def engine_call_def log_def split: option.splits)

lemma post_engine_dispose:
  "post engine_dispose w Q = Q (Inr ()) (w\<lparr>trace := trace w @ [Call Dispose Returned]\<rparr>)"
  by (simp add: post_def engine_dispose_def log_def)

lemma post_read_settings: "post read_settings w Q = Q (Inr (settings w)) w"
  by (simp add: post_def read_settings_def)

lemma post_assign_settings: "post (assign_settings f) w Q = Q (Inr ()) (w\<lparr>settings := f (settings w)\<rparr>)"
  by (simp add: post_def assign_settings_def)

lemma post_Prompt_ask:
  "post (Prompt_ask p choices is_password dflt) w Q =
     (case ask_loop choices is_password dflt (stdin w) of
        (r, rest, n) \<Rightarrow>
          Q r (w\<lparr>stdin := rest,
                 trace := trace w @ replicate n (Ask p)
                   @ (case r of Inl e \<Rightarrow> [] | Inr a \<Rightarrow> [Answer p a])\<rparr>))"
  by (simp add: post_def Prompt_ask_def split: prod.splits)

lemma post_if: "post (if b then m else n) w Q = (if b then post m w Q else post n w Q)"
  by simp

lemmas post_simps = post_ret post_raise post_bind post_seq post_try_except post_try_finally
  post_print post_fs_read post_fs_call post_cache_call post_db_call post_conn_call
  post_engine_call post_engine_dispose post_read_settings post_assign_settings post_Prompt_ask
  post_if

lemma postD: "post m w Q \<Longrightarrow> m w = (r, w') \<Longrightarrow> Q r w'"
  by (simp add: post_def)

lemma new_events_trace [simp]: "new_events w (w'\<lparr>trace := trace w @ evs\<rparr>) = evs"
  by (simp add: new_events_def)

lemma new_events_self [simp]: "new_events w w = []"
  by (simp add: new_events_def)

lemma pg_terminate_sql_nonempty [simp]: "pg_terminate_sql s \<noteq> []"
  by (simp add: pg_terminate_sql_def)

section \<open>The script runner\<close>

lemma for_each_execute:
  "for_each stmts (\<lambda>stmt. db_call (Execute stmt) (session_execute env stmt)) w =
     (fst (run_statements env stmts (db w)),
      w\<lparr>db := snd (run_statements env stmts (db w)),
        trace := trace w @ statement_events env stmts (db w)\<rparr>)"
proof (induction stmts arbitrary: w)
  case Nil
  then show ?case by simp
next
  case (Cons s ss)
  show ?case
  proof (cases "session_execute env s (db w)")
    case (Pair r d)
    have step: "for_each (s # ss) (\<lambda>stmt. db_call (Execute stmt) (session_execute env stmt)) w =
        (case db_call (Execute s) (session_execute env s) w of
           (Inl e, w') \<Rightarrow> (Inl e, w')
         | (Inr u, w') \<Rightarrow>
             (fst (run_statements env ss (db w')),
              w'\<lparr>db := snd (run_statements env ss (db w')),
                 trace := trace w' @ statement_events env ss (db w')\<rparr>))"
      by (simp only: for_each.simps Cons.IH)
    have call: "db_call (Execute s) (session_execute env s) w =
        (r, w\<lparr>db := d, trace := trace w @ [Call (Execute s) (outcome_of r)]\<rparr>)"
      using Pair by (simp add: db_call_def log_def)
    show ?thesis
      unfolding step call using Pair by (cases r) simp_all
  qed
qed

lemma statement_events_ok:
  "fst (run_statements env stmts d) = Inr u \<Longrightarrow>
   statement_events env stmts d = map (\<lambda>s. Call (Execute s) Returned) stmts"
  by (induction stmts arbitrary: d) (auto split: prod.splits sum.splits)

lemma statement_events_failed:
  "fst (run_statements env stmts d) = Inl e \<Longrightarrow>
   \<exists>k<length stmts. statement_events env stmts d =
      map (\<lambda>s. Call (Execute s) Returned) (take k stmts) @ [Call (Execute (stmts ! k)) (Raised e)]"
proof (induction stmts arbitrary: d)
  case Nil
  then show ?case by simp
next
  case (Cons s ss)
  show ?case
  proof (cases "session_execute env s d")
    case (Pair r d')
    show ?thesis
    proof (cases r)
      case (Inl e')
      with Pair Cons.prems have "e' = e" by simp
      with Pair Inl have "statement_events env (s # ss) d =
        map (\<lambda>s. Call (Execute s) Returned) (take 0 (s # ss)) @ [Call (Execute ((s # ss) ! 0)) (Raised e)]"
        by simp
      then show ?thesis by blast
    next
      case (Inr u)
      with Pair Cons.prems have "fst (run_statements env ss d') = Inl e" by simp
      from Cons.IH [OF this] obtain k where k: "k < length ss"
        "statement_events env ss d' =
           map (\<lambda>s. Call (Execute s) Returned) (take k ss) @ [Call (Execute (ss ! k)) (Raised e)]"
        by blast
      with Pair Inr have "statement_events env (s # ss) d =
        map (\<lambda>s. Call (Execute s) Returned) (take (Suc k) (s # ss))
          @ [Call (Execute ((s # ss) ! Suc k)) (Raised e)]"
        by simp
      moreover have "Suc k < length (s # ss)" using k by simp
      ultimately show ?thesis by blast
    qed
  qed
qed

text \<open>
  C1.  A script whose file parses into \<open>stmts\<close> is run between one \<open>Begin\<close> and one
  \<open>Commit\<close> or \<open>Rollback\<close>, its statements in the order of the file.  When every
  statement succeeds, all of them are executed and the database is the one they leave
  (\<open>d\<close>); when one raises, the statements up to it have been executed, none after it,
  the call raises \<^verbatim>\<open>cappa.Exit\<close> with status 1 (or the statement's own exception, if
  that is no \<^verbatim>\<open>Exception\<close>), and the world is the one before the script but for the
  trace: the database is in its state before the script.
\<close>

theorem execute_sql_scripts_transaction:
  assumes "parse_sql_script env p (fs w) = Inr stmts"
  shows "case run_statements env stmts (db w) of
      (Inr u, d) \<Rightarrow>
        execute_sql_scripts env p is_init w =
          (Inr (), w\<lparr>db := d, trace := trace w
             @ [Call Begin Returned, Call (ParseSqlScript p) Returned]
             @ map (\<lambda>s. Call (Execute s) Returned) stmts
             @ [Call Commit Returned]
             @ (if is_init then [] else [Print Msg_sql_done])\<rparr>)
    | (Inl e, d) \<Rightarrow>
        execute_sql_scripts env p is_init w =
          (Inl (if is_Exception e then Exit (msg_sql_failed @ str_exn e) 1 else e), w\<lparr>trace := trace w
             @ [Call Begin Returned, Call (ParseSqlScript p) Returned]
             @ statement_events env stmts (db w)
             @ [Call Rollback Returned]\<rparr>)
        \<and> (\<exists>k<length stmts. statement_events env stmts (db w) =
              map (\<lambda>s. Call (Execute s) Returned) (take k stmts)
              @ [Call (Execute (stmts ! k)) (Raised e)])"
proof (cases "run_statements env stmts (db w)")
  case (Pair r d)
  show ?thesis
  proof (cases r)
    case (Inl e)
    with Pair have f: "fst (run_statements env stmts (db w)) = Inl e" by simp
    have "execute_sql_scripts env p is_init w =
          (Inl (if is_Exception e then Exit (msg_sql_failed @ str_exn e) 1 else e), w\<lparr>trace := trace w
             @ [Call Begin Returned, Call (ParseSqlScript p) Returned]
             @ statement_events env stmts (db w)
             @ [Call Rollback Returned]\<rparr>)"
      using assms Pair Inl
      by (simp add: execute_sql_scripts_def seq_def bind_def session_begin_def try_except_def
          fs_read_def log_def raise_def for_each_execute)
    with statement_events_failed [OF f] Pair Inl show ?thesis by simp
  next
    case (Inr u)
    with Pair have f: "fst (run_statements env stmts (db w)) = Inr u" by simp
    show ?thesis
      using assms Pair Inr statement_events_ok [OF f]
      by (simp add: execute_sql_scripts_def seq_def bind_def session_begin_def try_except_def
          fs_read_def log_def raise_def for_each_execute console_print_def ret_def)
  qed
qed

theorem execute_sql_scripts_transaction_witness:
  "parse_sql_script example_env ''b.sql'' (fs (example_world [] [])) = Inr [''B1'', ''B2'', ''FAIL'', ''B4'', ''B5'']
   \<and> fst (execute_sql_scripts example_env ''b.sql'' False (example_world [] []))
       = Inl (Exit (msg_sql_failed @ ''boom'') 1)
   \<and> db (snd (execute_sql_scripts example_env ''b.sql'' False (example_world [] []))) = [''old'']
   \<and> parse_sql_script example_env ''a.sql'' (fs (example_world [] [])) = Inr [''A1'', ''A2'']
   \<and> fst (execute_sql_scripts example_env ''a.sql'' False (example_world [] [])) = Inr ()
   \<and> db (snd (execute_sql_scripts example_env ''a.sql'' False (example_world [] [])))
       = [''old'', ''A1'', ''A2'']"
proof -
  have b: "parse_sql_script example_env ''b.sql'' (fs (example_world [] [])) = Inr [''B1'', ''B2'', ''FAIL'', ''B4'', ''B5'']"
    by (simp add: example_env_def)
  have a: "parse_sql_script example_env ''a.sql'' (fs (example_world [] [])) = Inr [''A1'', ''A2'']"
    by (simp add: example_env_def)
  have rb: "run_statements example_env [''B1'', ''B2'', ''FAIL'', ''B4'', ''B5''] (db (example_world [] []))
      = (Inl (PyError ''boom''), [''old'', ''B1'', ''B2''])"
    by (simp add: example_env_def example_world_def)
  have ra: "run_statements example_env [''A1'', ''A2''] (db (example_world [] []))
      = (Inr (), [''old'', ''A1'', ''A2''])"
    by (simp add: example_env_def example_world_def)
  from execute_sql_scripts_transaction [OF b, of False] rb
  have 1: "fst (execute_sql_scripts example_env ''b.sql'' False (example_world [] []))
       = Inl (Exit (msg_sql_failed @ ''boom'') 1)"
    and 2: "db (snd (execute_sql_scripts example_env ''b.sql'' False (example_world [] []))) = [''old'']"
    by (simp_all add: example_world_def)
  from execute_sql_scripts_transaction [OF a, of False] ra
  have 3: "fst (execute_sql_scripts example_env ''a.sql'' False (example_world [] [])) = Inr ()"
    and 4: "db (snd (execute_sql_scripts example_env ''a.sql'' False (example_world [] [])))
       = [''old'', ''A1'', ''A2'']"
    by simp_all
  from a b 1 2 3 4 show ?thesis by simp
qed

section \<open>The database provisioner\<close>

lemma send_queries_ok:
  "send_queries env url qs d = (Inr u, d', sent) \<Longrightarrow>
   \<exists>ns. length ns = length qs \<and> sent = zip qs (map Rows ns)"
proof (induction qs arbitrary: d sent)
  case Nil
  then show ?case by simp
next
  case (Cons q qs)
  from Cons.prems obtain n d1 sent1 where
    c: "conn_execute env url q d = (Inr n, d1)"
    and r: "send_queries env url qs d1 = (Inr u, d', sent1)"
    and s: "sent = (q, Rows n) # sent1"
    by (auto split: prod.splits sum.splits)
  from Cons.IH [OF r] obtain ns where "length ns = length qs" "sent1 = zip qs (map Rows ns)"
    by blast
  with s have "length (n # ns) = length (q # qs) \<and> sent = zip (q # qs) (map Rows (n # ns))"
    by simp
  then show ?case by blast
qed

lemma send_queries_failed:
  "send_queries env url qs d = (Inl e, d', sent) \<Longrightarrow>
   \<exists>k ns. k < length qs \<and> length ns = k \<and>
     sent = zip (take k qs) (map Rows ns) @ [(qs ! k, Raised e)]"
proof (induction qs arbitrary: d sent)
  case Nil
  then show ?case by simp
next
  case (Cons q qs)
  show ?case
  proof (cases "conn_execute env url q d")
    case (Pair r d1)
    show ?thesis
    proof (cases r)
      case (Inl e')
      with Pair Cons.prems have "sent = [(q, Raised e)]" by auto
      then have "0 < length (q # qs) \<and> length ([]::nat list) = 0 \<and>
        sent = zip (take 0 (q # qs)) (map Rows []) @ [((q # qs) ! 0, Raised e)]"
        by simp
      then show ?thesis by blast
    next
      case (Inr n)
      with Pair Cons.prems obtain sent1 where
        r: "send_queries env url qs d1 = (Inl e, d', sent1)" and s: "sent = (q, Rows n) # sent1"
        by (auto split: prod.splits)
      from Cons.IH [OF r] obtain k ns where "k < length qs" "length ns = k"
        "sent1 = zip (take k qs) (map Rows ns) @ [(qs ! k, Raised e)]"
        by blast
      with s have "Suc k < length (q # qs) \<and> length (n # ns) = Suc k \<and>
        sent = zip (take (Suc k) (q # qs)) (map Rows (n # ns)) @ [((q # qs) ! Suc k, Raised e)]"
        by simp
      then show ?thesis by blast
    qed
  qed
qed

lemma create_database_run:
  assumes "create_async_engine env (provision_url (settings w)) = None"
    and "engine_connect env (provision_url (settings w)) (db w) = (Inr (), d0)"
    and "conn_execute env (provision_url (settings w)) (provision_check_sql (settings w)) d0 = (Inr n, d1)"
  shows "post (create_database_if_not_exists env) w (\<lambda>r w'.
     (r, w') =
     (case send_queries env (provision_url (settings w)) (provision_plan (settings w) n) d1 of
        (Inr u, d, sent) \<Rightarrow>
          (Inr True, w\<lparr>db := d, trace := trace w
             @ [Call (CreateEngine (provision_url (settings w))) Returned, Call Connect Returned,
                Call (ConnExecute (provision_check_sql (settings w))) (Rows n),
                Print (Msg_rebuild_database (DATABASE_SCHEMA (settings w)))]
             @ query_events sent
             @ [Print Msg_database_created, Call Dispose Returned]\<rparr>)
      | (Inl e, d, sent) \<Rightarrow>
          (if is_Exception e then Inr False else Inl e, w\<lparr>db := d, trace := trace w
             @ [Call (CreateEngine (provision_url (settings w))) Returned, Call Connect Returned,
                Call (ConnExecute (provision_check_sql (settings w))) (Rows n),
                Print (Msg_rebuild_database (DATABASE_SCHEMA (settings w)))]
             @ query_events sent
             @ [Call Dispose Returned]
             @ (if is_Exception e then [Print (Msg_database_create_failed (str_exn e))] else [])\<rparr>)))"
proof (cases "DATABASE_TYPE (settings w) = ''mysql''")
  case True
  show ?thesis
    using assms
    apply (subst post_def)
    apply (simp only: create_database_if_not_exists_def Let_def)
    apply (fold post_def)
    apply (simp add: post_simps provision_plan_def provision_url_def provision_check_sql_def
        query_events_def True split: prod.split sum.split option.split)
    done
next
  case False
  then have F: "''mysql'' \<noteq> DATABASE_TYPE (settings w)" by auto
  show ?thesis
    using assms
    apply (subst post_def)
    apply (simp only: create_database_if_not_exists_def Let_def)
    apply (fold post_def)
    apply (simp add: post_simps provision_plan_def provision_url_def provision_check_sql_def
        query_events_def False F split: prod.split sum.split option.split)
    done
qed


text \<open>
  C2.  When the engine is created, the connection opens and the existence check returns
  \<open>n\<close> rows, the run of the provisioner is the check followed by the reference run of the
  plan for \<open>n\<close>: for \<open>0 < n\<close> the termination of connections (PostgreSQL only, never
  MySQL), then the drop, then the creation; for \<open>n = 0\<close> the creation alone.  The
  statements are sent in this order, each after the one before it has returned.  When
  all of them return, the whole plan has been sent and the provisioner returns \<open>True\<close>;
  when one raises, it is the last one sent, the provisioner disposes of the engine,
  reports the error and returns \<open>False\<close> (an exception that is no \<^verbatim>\<open>Exception\<close> is
  raised again instead).
\<close>

theorem create_database_queries:
  assumes "create_async_engine env (provision_url (settings w)) = None"
    and "engine_connect env (provision_url (settings w)) (db w) = (Inr (), d0)"
    and "conn_execute env (provision_url (settings w)) (provision_check_sql (settings w)) d0 = (Inr n, d1)"
  shows "case send_queries env (provision_url (settings w)) (provision_plan (settings w) n) d1 of
      (Inr u, d, sent) \<Rightarrow>
        create_database_if_not_exists env w =
          (Inr True, w\<lparr>db := d, trace := trace w
             @ [Call (CreateEngine (provision_url (settings w))) Returned, Call Connect Returned,
                Call (ConnExecute (provision_check_sql (settings w))) (Rows n),
                Print (Msg_rebuild_database (DATABASE_SCHEMA (settings w)))]
             @ query_events sent
             @ [Print Msg_database_created, Call Dispose Returned]\<rparr>)
        \<and> (\<exists>ns. length ns = length (provision_plan (settings w) n) \<and>
              sent = zip (provision_plan (settings w) n) (map Rows ns))
    | (Inl e, d, sent) \<Rightarrow>
        create_database_if_not_exists env w =
          (if is_Exception e then Inr False else Inl e, w\<lparr>db := d, trace := trace w
             @ [Call (CreateEngine (provision_url (settings w))) Returned, Call Connect Returned,
                Call (ConnExecute (provision_check_sql (settings w))) (Rows n),
                Print (Msg_rebuild_database (DATABASE_SCHEMA (settings w)))]
             @ query_events sent
             @ [Call Dispose Returned]
             @ (if is_Exception e then [Print (Msg_database_create_failed (str_exn e))] else [])\<rparr>)
        \<and> (\<exists>k ns. k < length (provision_plan (settings w) n) \<and> length ns = k \<and>
              sent = zip (take k (provision_plan (settings w) n)) (map Rows ns)
                     @ [(provision_plan (settings w) n ! k, Raised e)])"
proof (cases "send_queries env (provision_url (settings w)) (provision_plan (settings w) n) d1")
  case (fields r d sent)
  obtain r' w' where run: "create_database_if_not_exists env w = (r', w')"
    by (cases "create_database_if_not_exists env w")
  note eq = postD [OF create_database_run [OF assms] run]
  show ?thesis
  proof (cases r)
    case (Inl e)
    with fields send_queries_failed [of env "provision_url (settings w)" "provision_plan (settings w) n" d1 e d sent]
      eq run
    show ?thesis by simp
  next
    case (Inr u)
    with fields send_queries_ok [of env "provision_url (settings w)" "provision_plan (settings w) n" d1 u d sent]
      eq run
    show ?thesis by simp
  qed
qed

lemma example_world_sel:
  "settings (example_world p l) = example_settings"
  "db (example_world p l) = [''old'']"
  "trace (example_world p l) = []"
  by (simp_all add: example_world_def)

lemma example_provision:
  "provision_url example_settings = pg_url example_settings"
  "provision_check_sql example_settings = pg_check_sql example_settings"
  "provision_url (example_settings\<lparr>DATABASE_TYPE := ''mysql''\<rparr>) = mysql_url (example_settings\<lparr>DATABASE_TYPE := ''mysql''\<rparr>)"
  "provision_check_sql (example_settings\<lparr>DATABASE_TYPE := ''mysql''\<rparr>) = mysql_check_sql (example_settings\<lparr>DATABASE_TYPE := ''mysql''\<rparr>)"
  "provision_plan example_settings (Suc 0) =
     [pg_terminate_sql example_settings, pg_drop_sql example_settings, pg_create_sql example_settings]"
  "provision_plan example_settings 0 = [pg_create_sql example_settings]"
  "provision_plan (example_settings\<lparr>DATABASE_TYPE := ''mysql''\<rparr>) (Suc 0) =
     [mysql_drop_sql (example_settings\<lparr>DATABASE_TYPE := ''mysql''\<rparr>),
      mysql_create_sql (example_settings\<lparr>DATABASE_TYPE := ''mysql''\<rparr>)]"
  by (simp_all add: provision_url_def provision_check_sql_def provision_plan_def example_settings_def)

lemma example_env_sel:
  "create_async_engine example_env url = None"
  "engine_connect example_env url d = (Inr (), d)"
  "conn_execute example_env url sql d = (Inr (length d), d @ [sql])"
  by (simp_all add: example_env_def)

lemma example_sql_distinct:
  "pg_check_sql example_settings \<noteq> pg_drop_sql example_settings"
  "pg_terminate_sql example_settings \<noteq> pg_drop_sql example_settings"
  "pg_create_sql example_settings \<noteq> pg_drop_sql example_settings"
  "DATABASE_SCHEMA example_settings = ''fba''"
  by (simp_all add: pg_check_sql_def pg_terminate_sql_def pg_drop_sql_def pg_create_sql_def
      example_settings_def)

theorem create_database_queries_witness:
  "create_database_if_not_exists example_env (example_world [] []) =
     (Inr True, (example_world [] [])\<lparr>
        db := [''old'', pg_check_sql example_settings, pg_terminate_sql example_settings,
               pg_drop_sql example_settings, pg_create_sql example_settings],
        trace := [Call (CreateEngine (pg_url example_settings)) Returned,
                  Call Connect Returned,
                  Call (ConnExecute (pg_check_sql example_settings)) (Rows 1),
                  Print (Msg_rebuild_database ''fba''),
                  Call (ConnExecute (pg_terminate_sql example_settings)) (Rows 2),
                  Call (ConnExecute (pg_drop_sql example_settings)) (Rows 3),
                  Call (ConnExecute (pg_create_sql example_settings)) (Rows 4),
                  Print Msg_database_created,
                  Call Dispose Returned]\<rparr>) \<and>
   create_database_if_not_exists example_env ((example_world [] [])\<lparr>db := []\<rparr>) =
     (Inr True, (example_world [] [])\<lparr>
        db := [pg_check_sql example_settings, pg_create_sql example_settings],
        trace := [Call (CreateEngine (pg_url example_settings)) Returned,
                  Call Connect Returned,
                  Call (ConnExecute (pg_check_sql example_settings)) (Rows 0),
                  Print (Msg_rebuild_database ''fba''),
                  Call (ConnExecute (pg_create_sql example_settings)) (Rows 1),
                  Print Msg_database_created,
                  Call Dispose Returned]\<rparr>) \<and>
   create_database_if_not_exists example_env
       ((example_world [] [])\<lparr>settings := example_settings\<lparr>DATABASE_TYPE := ''mysql''\<rparr>\<rparr>) =
     (Inr True, (example_world [] [])\<lparr>settings := example_settings\<lparr>DATABASE_TYPE := ''mysql''\<rparr>,
        db := [''old'', mysql_check_sql (example_settings\<lparr>DATABASE_TYPE := ''mysql''\<rparr>),
               mysql_drop_sql (example_settings\<lparr>DATABASE_TYPE := ''mysql''\<rparr>),
               mysql_create_sql (example_settings\<lparr>DATABASE_TYPE := ''mysql''\<rparr>)],
        trace := [Call (CreateEngine (mysql_url (example_settings\<lparr>DATABASE_TYPE := ''mysql''\<rparr>))) Returned,
                  Call Connect Returned,
                  Call (ConnExecute (mysql_check_sql (example_settings\<lparr>DATABASE_TYPE := ''mysql''\<rparr>))) (Rows 1),
                  Print (Msg_rebuild_database ''fba''),
                  Call (ConnExecute (mysql_drop_sql (example_settings\<lparr>DATABASE_TYPE := ''mysql''\<rparr>))) (Rows 2),
                  Call (ConnExecute (mysql_create_sql (example_settings\<lparr>DATABASE_TYPE := ''mysql''\<rparr>))) (Rows 3),
                  Print Msg_database_created,
                  Call Dispose Returned]\<rparr>) \<and>
   create_database_if_not_exists
       (example_env\<lparr>conn_execute := (\<lambda>url sql d.
          if sql = pg_drop_sql example_settings then (Inl (PyError ''denied''), d)
          else (Inr (length d), d @ [sql]))\<rparr>)
       (example_world [] []) =
     (Inr False, (example_world [] [])\<lparr>
        db := [''old'', pg_check_sql example_settings, pg_terminate_sql example_settings],
        trace := [Call (CreateEngine (pg_url example_settings)) Returned,
                  Call Connect Returned,
                  Call (ConnExecute (pg_check_sql example_settings)) (Rows 1),
                  Print (Msg_rebuild_database ''fba''),
                  Call (ConnExecute (pg_terminate_sql example_settings)) (Rows 2),
                  Call (ConnExecute (pg_drop_sql example_settings)) (Raised (PyError ''denied'')),
                  Call Dispose Returned,
                  Print (Msg_database_create_failed ''denied'')]\<rparr>)"
proof -
  let ?w = "example_world [] []"
  let ?a = "?w\<lparr>db := []\<rparr>"
  let ?m = "?w\<lparr>settings := example_settings\<lparr>DATABASE_TYPE := ''mysql''\<rparr>\<rparr>"
  let ?env = "example_env\<lparr>conn_execute := (\<lambda>url sql d.
          if sql = pg_drop_sql example_settings then (Inl (PyError ''denied''), d)
          else (Inr (length d), d @ [sql]))\<rparr>"
  have s: "DATABASE_SCHEMA (example_settings\<lparr>DATABASE_TYPE := ''mysql''\<rparr>) = ''fba''"
    by (simp add: example_settings_def)
  have 1: "create_async_engine example_env (provision_url (settings ?w)) = None"
    by (simp add: example_env_sel)
  have 2: "engine_connect example_env (provision_url (settings ?w)) (db ?w) = (Inr (), [''old''])"
    by (simp add: example_env_sel example_world_sel)
  have 3: "conn_execute example_env (provision_url (settings ?w)) (provision_check_sql (settings ?w)) [''old'']
      = (Inr 1, [''old'', pg_check_sql example_settings])"
    by (simp add: example_env_sel example_world_sel example_provision)
  have a1: "create_async_engine example_env (provision_url (settings ?a)) = None"
    by (simp add: example_env_sel)
  have a2: "engine_connect example_env (provision_url (settings ?a)) (db ?a) = (Inr (), [])"
    by (simp add: example_env_sel)
  have a3: "conn_execute example_env (provision_url (settings ?a)) (provision_check_sql (settings ?a)) []
      = (Inr 0, [pg_check_sql example_settings])"
    by (simp add: example_env_sel example_world_sel example_provision)
  have m1: "create_async_engine example_env (provision_url (settings ?m)) = None"
    by (simp add: example_env_sel)
  have m2: "engine_connect example_env (provision_url (settings ?m)) (db ?m) = (Inr (), [''old''])"
    by (simp add: example_env_sel example_world_sel)
  have m3: "conn_execute example_env (provision_url (settings ?m)) (provision_check_sql (settings ?m)) [''old'']
      = (Inr 1, [''old'', mysql_check_sql (example_settings\<lparr>DATABASE_TYPE := ''mysql''\<rparr>)])"
    by (simp add: example_env_sel example_world_sel example_provision)
  have f1: "create_async_engine ?env (provision_url (settings ?w)) = None"
    by (simp add: example_env_sel)
  have f2: "engine_connect ?env (provision_url (settings ?w)) (db ?w) = (Inr (), [''old''])"
    by (simp add: example_env_sel example_world_sel)
  have f3: "conn_execute ?env (provision_url (settings ?w)) (provision_check_sql (settings ?w)) [''old'']
      = (Inr 1, [''old'', pg_check_sql example_settings])"
    by (simp add: example_world_sel example_provision example_sql_distinct)
  from create_database_queries [OF 1 2 3] have A: "create_database_if_not_exists example_env ?w =
     (Inr True, ?w\<lparr>
        db := [''old'', pg_check_sql example_settings, pg_terminate_sql example_settings,
               pg_drop_sql example_settings, pg_create_sql example_settings],
        trace := [Call (CreateEngine (pg_url example_settings)) Returned,
                  Call Connect Returned,
                  Call (ConnExecute (pg_check_sql example_settings)) (Rows 1),
                  Print (Msg_rebuild_database ''fba''),
                  Call (ConnExecute (pg_terminate_sql example_settings)) (Rows 2),
                  Call (ConnExecute (pg_drop_sql example_settings)) (Rows 3),
                  Call (ConnExecute (pg_create_sql example_settings)) (Rows 4),
                  Print Msg_database_created,
                  Call Dispose Returned]\<rparr>)"
    by (simp add: example_env_sel example_world_sel example_provision query_events_def
        example_sql_distinct)
  from create_database_queries [OF a1 a2 a3] have B: "create_database_if_not_exists example_env ?a =
     (Inr True, ?w\<lparr>
        db := [pg_check_sql example_settings, pg_create_sql example_settings],
        trace := [Call (CreateEngine (pg_url example_settings)) Returned,
                  Call Connect Returned,
                  Call (ConnExecute (pg_check_sql example_settings)) (Rows 0),
                  Print (Msg_rebuild_database ''fba''),
                  Call (ConnExecute (pg_create_sql example_settings)) (Rows 1),
                  Print Msg_database_created,
                  Call Dispose Returned]\<rparr>)"
    by (simp add: example_env_sel example_world_sel example_provision query_events_def
        example_sql_distinct)
  from create_database_queries [OF m1 m2 m3] have C: "create_database_if_not_exists example_env ?m =
     (Inr True, ?w\<lparr>settings := example_settings\<lparr>DATABASE_TYPE := ''mysql''\<rparr>,
        db := [''old'', mysql_check_sql (example_settings\<lparr>DATABASE_TYPE := ''mysql''\<rparr>),
               mysql_drop_sql (example_settings\<lparr>DATABASE_TYPE := ''mysql''\<rparr>),
               mysql_create_sql (example_settings\<lparr>DATABASE_TYPE := ''mysql''\<rparr>)],
        trace := [Call (CreateEngine (mysql_url (example_settings\<lparr>DATABASE_TYPE := ''mysql''\<rparr>))) Returned,
                  Call Connect Returned,
                  Call (ConnExecute (mysql_check_sql (example_settings\<lparr>DATABASE_TYPE := ''mysql''\<rparr>))) (Rows 1),
                  Print (Msg_rebuild_database ''fba''),
                  Call (ConnExecute (mysql_drop_sql (example_settings\<lparr>DATABASE_TYPE := ''mysql''\<rparr>))) (Rows 2),
                  Call (ConnExecute (mysql_create_sql (example_settings\<lparr>DATABASE_TYPE := ''mysql''\<rparr>))) (Rows 3),
                  Print Msg_database_created,
                  Call Dispose Returned]\<rparr>)"
    by (simp add: example_env_sel example_world_sel example_provision query_events_def s)
  from create_database_queries [OF f1 f2 f3] have D: "create_database_if_not_exists ?env ?w =
     (Inr False, ?w\<lparr>
        db := [''old'', pg_check_sql example_settings, pg_terminate_sql example_settings],
        trace := [Call (CreateEngine (pg_url example_settings)) Returned,
                  Call Connect Returned,
                  Call (ConnExecute (pg_check_sql example_settings)) (Rows 1),
                  Print (Msg_rebuild_database ''fba''),
                  Call (ConnExecute (pg_terminate_sql example_settings)) (Rows 2),
                  Call (ConnExecute (pg_drop_sql example_settings)) (Raised (PyError ''denied'')),
                  Call Dispose Returned,
                  Print (Msg_database_create_failed ''denied'')]\<rparr>)"
    by (simp add: example_world_sel example_provision query_events_def example_sql_distinct)
  from A B C D show ?thesis
    by (simp only: simp_thms)
qed

section \<open>Plugin installation\<close>

text \<open>
  C7.  When the archive path and the repository URL are both given, or neither is
  (an absent and an empty value count alike), \<^verbatim>\<open>install_plugin\<close> raises \<^verbatim>\<open>cappa.Exit\<close>
  with status 1 and leaves the world as it was: nothing is printed, installed, read or
  executed.
\<close>

theorem install_plugin_precondition:
  assumes "truthy path = truthy repo_url"
  shows "install_plugin env path repo_url no_sql db_type pk_type w =
           (Inl (Exit (if truthy path then msg_path_and_repo_exclusive
                       else msg_path_or_repo_required) 1), w)
         \<and> exit_status (fst (install_plugin env path repo_url no_sql db_type pk_type w)) = 1"
  using assms by (simp add: install_plugin_def raise_def)

theorem install_plugin_precondition_witness:
  "truthy (Some ''plugin.zip'') = truthy (Some ''https://example.org/plugin.git'') \<and>
   install_plugin example_env (Some ''plugin.zip'') (Some ''https://example.org/plugin.git'')
     False postgresql autoincrement (example_world [] []) =
     (Inl (Exit msg_path_and_repo_exclusive 1), example_world [] []) \<and>
   truthy None = truthy (Some []) \<and>
   install_plugin example_env None (Some []) False postgresql autoincrement (example_world [] []) =
     (Inl (Exit msg_path_or_repo_required 1), example_world [] [])"
  using install_plugin_precondition [of "Some ''plugin.zip''" "Some ''https://example.org/plugin.git''"
      example_env False postgresql autoincrement "example_world [] []"]
    install_plugin_precondition [of None "Some []" example_env False postgresql autoincrement
      "example_world [] []"]
  by simp

section \<open>The script list\<close>

lemma plugin_scripts_resolved:
  assumes "\<forall>p\<in>set plugins. get_plugin_sql env p (DATABASE_TYPE (settings w)) (DATABASE_PK_MODE (settings w)) (fs w)
             = Inr (resolve p)"
  shows "plugin_scripts env plugins acc w =
     (Inr (acc @ [py_str (resolve p). p \<leftarrow> plugins, truthy (resolve p)]),
      w\<lparr>trace := trace w @ map (\<lambda>p. Call (GetPluginSql p (DATABASE_TYPE (settings w))
          (DATABASE_PK_MODE (settings w))) Returned) plugins\<rparr>)"
  using assms
proof (induction plugins arbitrary: acc w)
  case Nil
  then show ?case by simp
next
  case (Cons p ps)
  let ?w = "w\<lparr>trace := trace w @ [Call (GetPluginSql p (DATABASE_TYPE (settings w))
          (DATABASE_PK_MODE (settings w))) Returned]\<rparr>"
  have "\<forall>q\<in>set ps. get_plugin_sql env q (DATABASE_TYPE (settings ?w)) (DATABASE_PK_MODE (settings ?w)) (fs ?w)
             = Inr (resolve q)"
    using Cons.prems by simp
  from Cons.IH [OF this] Cons.prems show ?case
    by (simp add: fs_read_def Let_def log_def)
qed

text \<open>
  C3.  When the plugin registry lists \<open>plugins\<close> and resolves each of them (to a script
  or to none), \<^verbatim>\<open>get_sql_scripts\<close> returns the main seed script of the dialect and the
  key mode if that file exists, and nothing for it otherwise, followed by the scripts of
  the plugins that have one, in the order of the list.
\<close>

theorem get_sql_scripts_result:
  assumes "get_plugins env (fs w) = Inr plugins"
    and "\<forall>p\<in>set plugins. get_plugin_sql env p (DATABASE_TYPE (settings w)) (DATABASE_PK_MODE (settings w)) (fs w)
             = Inr (resolve p)"
  shows "fst (get_sql_scripts env w) =
     Inr ((if path_exists env (main_sql_file env (settings w)) (fs w)
           then [main_sql_file env (settings w)] else [])
          @ [py_str (resolve p). p \<leftarrow> plugins, truthy (resolve p)])"
proof -
  let ?m = "main_sql_file env (settings w)"
  let ?w = "w\<lparr>trace := trace w @ [Call (PathExists ?m) Returned, Call GetPlugins Returned]\<rparr>"
  have "\<forall>p\<in>set plugins. get_plugin_sql env p (DATABASE_TYPE (settings ?w)) (DATABASE_PK_MODE (settings ?w)) (fs ?w)
             = Inr (resolve p)"
    using assms(2) by simp
  from plugin_scripts_resolved [OF this] assms(1) show ?thesis
    by (simp add: get_sql_scripts_def Let_def bind_def fs_read_def log_def)
qed

theorem get_sql_scripts_result_witness:
  "get_plugins example_env (fs (example_world [''x'', ''b''] [])) = Inr [''x'', ''b''] \<and>
   get_plugin_sql example_env ''x'' ''postgresql'' ''autoincrement'' [''x'', ''b''] = Inr None \<and>
   get_plugin_sql example_env ''b'' ''postgresql'' ''autoincrement'' [''x'', ''b''] = Inr (Some ''b.sql'') \<and>
   \<not> path_exists example_env (main_sql_file example_env example_settings) [''x'', ''b''] \<and>
   fst (get_sql_scripts example_env (example_world [''x'', ''b''] [])) = Inr [''b.sql'']"
  using get_sql_scripts_result [of example_env "example_world [''x'', ''b''] []" "[''x'', ''b'']"
      "\<lambda>p. if p = ''b'' then Some ''b.sql'' else None"]
  by (simp add: example_env_def example_world_def example_settings_def main_sql_file_def path_join_def)

section \<open>The error of the script runner\<close>

lemma execute_sql_scripts_parse_failed:
  assumes "parse_sql_script env p (fs w) = Inl e"
  shows "execute_sql_scripts env p is_init w =
     (Inl (if is_Exception e then Exit (msg_sql_failed @ str_exn e) 1 else e),
      w\<lparr>trace := trace w @ [Call Begin Returned, Call (ParseSqlScript p) (Raised e),
                              Call Rollback Returned]\<rparr>)"
  using assms
  by (simp add: execute_sql_scripts_def seq_def bind_def session_begin_def try_except_def
      fs_read_def log_def raise_def)

lemma execute_sql_scripts_failed:
  assumes "parse_sql_script env p (fs w) = Inr stmts"
    and "fst (run_statements env stmts (db w)) = Inl e"
  shows "execute_sql_scripts env p is_init w =
     (Inl (if is_Exception e then Exit (msg_sql_failed @ str_exn e) 1 else e),
      w\<lparr>trace := trace w @ [Call Begin Returned, Call (ParseSqlScript p) Returned]
                 @ statement_events env stmts (db w) @ [Call Rollback Returned]\<rparr>)"
  using assms
  by (simp add: execute_sql_scripts_def seq_def bind_def session_begin_def try_except_def
      fs_read_def log_def raise_def for_each_execute)

lemma execute_sql_scripts_ok:
  assumes "parse_sql_script env p (fs w) = Inr stmts"
    and "fst (run_statements env stmts (db w)) = Inr u"
  shows "execute_sql_scripts env p is_init w =
     (Inr (),
      w\<lparr>db := snd (run_statements env stmts (db w)),
        trace := trace w @ [Call Begin Returned, Call (ParseSqlScript p) Returned]
                 @ map (\<lambda>s. Call (Execute s) Returned) stmts @ [Call Commit Returned]
                 @ (if is_init then [] else [Print Msg_sql_done])\<rparr>)"
  using assms statement_events_ok [OF assms(2)]
  by (simp add: execute_sql_scripts_def seq_def bind_def session_begin_def try_except_def
      fs_read_def log_def raise_def for_each_execute console_print_def ret_def)

text \<open>
  C8, as the code has it.  Whenever parsing the script or one of its statements raises
  some \<open>e\<close>, the transaction is rolled back (the database is the one before the script
  and the rollback is the last effect), and the call raises \<^verbatim>\<open>cappa.Exit\<close> with status 1
  whose message is the fixed text of line 367 followed by the text of \<open>e\<close>, whatever the
  name \<open>p\<close> of the script: the name is in the message only if the text of \<open>e\<close> holds it.
  (An \<open>e\<close> that is no \<^verbatim>\<open>Exception\<close> is raised again as it is.)
\<close>

theorem execute_sql_scripts_error_message:
  assumes "parse_sql_script env p (fs w) = Inl e \<or>
           (\<exists>stmts. parse_sql_script env p (fs w) = Inr stmts \<and>
                     fst (run_statements env stmts (db w)) = Inl e)"
  shows "fst (execute_sql_scripts env p is_init w) =
           Inl (if is_Exception e then Exit (msg_sql_failed @ str_exn e) 1 else e)
         \<and> exit_status (fst (execute_sql_scripts env p is_init w)) =
             (case e of Exit message code \<Rightarrow> code | _ \<Rightarrow> 1)
         \<and> db (snd (execute_sql_scripts env p is_init w)) = db w
         \<and> last (trace (snd (execute_sql_scripts env p is_init w))) = Call Rollback Returned"
proof (cases "parse_sql_script env p (fs w)")
  case (Inl e')
  with assms have "e' = e" by auto
  with execute_sql_scripts_parse_failed [OF Inl, of is_init] show ?thesis
    by (cases e) simp_all
next
  case (Inr stmts)
  with assms have "fst (run_statements env stmts (db w)) = Inl e" by auto
  from execute_sql_scripts_failed [OF Inr this, of is_init] show ?thesis
    by (cases e) simp_all
qed

lemma example_failing_script:
  "execute_sql_scripts example_env ''b.sql'' False (example_world [] []) =
     (Inl (Exit (msg_sql_failed @ ''boom'') 1),
      (example_world [] [])\<lparr>trace := [Call Begin Returned, Call (ParseSqlScript ''b.sql'') Returned,
         Call (Execute ''B1'') Returned, Call (Execute ''B2'') Returned,
         Call (Execute ''FAIL'') (Raised (PyError ''boom'')), Call Rollback Returned]\<rparr>)"
proof -
  have p: "parse_sql_script example_env ''b.sql'' (fs (example_world [] [])) = Inr [''B1'', ''B2'', ''FAIL'', ''B4'', ''B5'']"
    by (simp add: example_env_def)
  have r: "fst (run_statements example_env [''B1'', ''B2'', ''FAIL'', ''B4'', ''B5''] (db (example_world [] [])))
      = Inl (PyError ''boom'')"
    by (simp add: example_env_def example_world_def)
  show ?thesis
    unfolding execute_sql_scripts_failed [OF p r]
    by (simp add: example_env_def example_world_def)
qed

theorem execute_sql_scripts_error_message_witness:
  "parse_sql_script example_env ''b.sql'' (fs (example_world [] [])) = Inr [''B1'', ''B2'', ''FAIL'', ''B4'', ''B5''] \<and>
   fst (run_statements example_env [''B1'', ''B2'', ''FAIL'', ''B4'', ''B5''] (db (example_world [] [])))
     = Inl (PyError ''boom'') \<and>
   fst (execute_sql_scripts example_env ''b.sql'' False (example_world [] []))
     = Inl (Exit (msg_sql_failed @ ''boom'') 1) \<and>
   exit_status (fst (execute_sql_scripts example_env ''b.sql'' False (example_world [] []))) = 1 \<and>
   db (snd (execute_sql_scripts example_env ''b.sql'' False (example_world [] []))) = [''old''] \<and>
   last (trace (snd (execute_sql_scripts example_env ''b.sql'' False (example_world [] []))))
     = Call Rollback Returned"
proof -
  have p: "parse_sql_script example_env ''b.sql'' (fs (example_world [] [])) = Inr [''B1'', ''B2'', ''FAIL'', ''B4'', ''B5'']"
    by (simp add: example_env_def)
  have r: "fst (run_statements example_env [''B1'', ''B2'', ''FAIL'', ''B4'', ''B5''] (db (example_world [] [])))
      = Inl (PyError ''boom'')"
    by (simp add: example_env_def example_world_def)
  from p r have "parse_sql_script example_env ''b.sql'' (fs (example_world [] [])) = Inl (PyError ''boom'') \<or>
      (\<exists>stmts. parse_sql_script example_env ''b.sql'' (fs (example_world [] [])) = Inr stmts \<and>
         fst (run_statements example_env stmts (db (example_world [] []))) = Inl (PyError ''boom''))"
    by simp
  from execute_sql_scripts_error_message [OF this, of False] p r show ?thesis
    by (simp add: example_world_sel)
qed

text \<open>
  The claim as stated fails: the script \<open>b.sql\<close>, whose third statement raises \<open>boom\<close>,
  is reported with a message in which \<open>b.sql\<close> does not occur.
\<close>

theorem execute_sql_scripts_error_message_counterexample:
  "fst (execute_sql_scripts example_env ''b.sql'' False (example_world [] []))
     = Inl (Exit (msg_sql_failed @ ''boom'') 1) \<and>
   \<not> sublist ''b.sql'' (msg_sql_failed @ ''boom'')"
  by (simp add: example_failing_script msg_sql_failed_def sublist_Cons_right)

section \<open>Auto mode\<close>

text \<open>
  C10.  In auto mode, when the environment step has succeeded and the operator's answer
  to the confirmation of the database step is not \<open>y\<close>, the run is \<^verbatim>\<open>init\<close> (step 3)
  from the world the environment step left, with nothing added to it but the second
  banner, the prompt and its answer, the note that the database step was cancelled, and
  the third banner: the database server is untouched and nothing is raised.
\<close>

theorem auto_init_declined_database:
  assumes "setup_env_file env (w\<lparr>trace := trace w @ [Print Msg_step1, Print Panel_env]\<rparr>) = (Inr True, w1)"
    and "ask_loop (Some [''y'', ''n'']) False ''n'' (stdin w1) = (Inr ok, rest, n)"
    and "lower ok \<noteq> ''y''"
  shows "auto_init env w =
     init env (w1\<lparr>stdin := rest,
       trace := trace w1
         @ [Print Msg_step2,
            Print (Panel_database (DATABASE_TYPE (settings w1)) (DATABASE_SCHEMA (settings w1))
                     (DATABASE_HOST (settings w1)) (DATABASE_PORT (settings w1)))]
         @ replicate n (Ask Ask_confirm_database)
         @ [Answer Ask_confirm_database ok, Print Msg_database_cancelled, Print Msg_step3]\<rparr>)"
  using assms
  by (simp add: auto_init_def seq_def bind_def console_print_def log_def raise_def read_settings_def
      Prompt_ask_def ret_def)

lemma example_setup_env_file:
  "(case setup_env_file example_env
     ((example_world [] example_lines)\<lparr>trace := trace (example_world [] example_lines)
        @ [Print Msg_step1, Print Panel_env]\<rparr>) of
      (r, w) \<Rightarrow> (r, stdin w, DATABASE_TYPE (settings w), DATABASE_SCHEMA (settings w),
                  DATABASE_HOST (settings w), DATABASE_PORT (settings w)))
   = (Inr True, [''n'' @ [CHR 0xE3, CHR 0x80, CHR 0x80], ''n''], ''postgresql'', ''fba'', ''127.0.0.1'', ''5432'')"
  by code_simp

theorem auto_init_declined_database_witness:
  "fst (setup_env_file example_env
     ((example_world [] example_lines)\<lparr>trace := trace (example_world [] example_lines)
        @ [Print Msg_step1, Print Panel_env]\<rparr>)) = Inr True \<and>
   ask_loop (Some [''y'', ''n'']) False ''n'' [''n'' @ [CHR 0xE3, CHR 0x80, CHR 0x80], ''n''] = (Inr ''n'', [''n''], 1) \<and>
   lower ''n'' \<noteq> ''y'' \<and>
   auto_init example_env (example_world [] example_lines) =
   init example_env ((snd (setup_env_file example_env
     ((example_world [] example_lines)\<lparr>trace := trace (example_world [] example_lines)
        @ [Print Msg_step1, Print Panel_env]\<rparr>)))\<lparr>stdin := [''n''],
       trace := trace (snd (setup_env_file example_env
     ((example_world [] example_lines)\<lparr>trace := trace (example_world [] example_lines)
        @ [Print Msg_step1, Print Panel_env]\<rparr>)))
         @ [Print Msg_step2, Print (Panel_database ''postgresql'' ''fba'' ''127.0.0.1'' ''5432''),
            Ask Ask_confirm_database, Answer Ask_confirm_database ''n'',
            Print Msg_database_cancelled, Print Msg_step3]\<rparr>)"
proof -
  let ?W0 = "(example_world [] example_lines)\<lparr>trace := trace (example_world [] example_lines)
        @ [Print Msg_step1, Print Panel_env]\<rparr>"
  let ?X = "setup_env_file example_env ?W0"
  from example_setup_env_file have f: "fst ?X = Inr True"
    and s: "stdin (snd ?X) = [''n'' @ [CHR 0xE3, CHR 0x80, CHR 0x80], ''n'']"
    and t: "DATABASE_TYPE (settings (snd ?X)) = ''postgresql''"
      "DATABASE_SCHEMA (settings (snd ?X)) = ''fba''"
      "DATABASE_HOST (settings (snd ?X)) = ''127.0.0.1''"
      "DATABASE_PORT (settings (snd ?X)) = ''5432''"
    by (cases ?X; simp)+
  have h1: "?X = (Inr True, snd ?X)"
    using f by (cases ?X) simp
  have a: "ask_loop (Some [''y'', ''n'']) False ''n'' [''n'' @ [CHR 0xE3, CHR 0x80, CHR 0x80], ''n'']
      = (Inr ''n'', [''n''], 1)"
    by code_simp
  have h2: "ask_loop (Some [''y'', ''n'']) False ''n'' (stdin (snd ?X)) = (Inr ''n'', [''n''], 1)"
    unfolding s by (rule a)
  have h3: "lower ''n'' \<noteq> ''y''"
    by (simp add: lower_def lower_char_def)
  from auto_init_declined_database [OF h1 h2 h3] f a h3 show ?thesis
    by (simp only: t simp_thms append.simps replicate.simps One_nat_def)
qed

end
